theory Spec2Isabelle
  imports Complex_Main "HOL-Library.Multiset"
begin

section \<open>Python values handled by the ranking funnel\<close>

text \<open>
  Structured job descriptions and resumes are Python objects obtained from \<^verbatim>\<open>json.loads\<close>:
  \<^verbatim>\<open>None\<close>, booleans, integers, floats, strings, lists and dicts with string keys. A dict is
  an association list in insertion order (its keys are pairwise distinct in Python); a key
  is looked up with \<^const>\<open>map_of\<close>. A float is a finite IEEE double, given by its value as a
  real number; the arithmetic on floats rounds as the hardware does (next section).
  Infinities and NaN are not represented.
\<close>

datatype json =
    JNull
  | JBool bool
  | JInt int
  | JFloat real
  | JStr string
  | JList "json list"
  | JDict "(string \<times> json) list"

datatype error = TypeError | CapabilityError | OverflowError | ZeroDivisionError

section \<open>Double-precision arithmetic\<close>

text \<open>
  Python floats are IEEE binary64 numbers: 53 bits of precision, round to nearest with
  ties to even, gradual underflow below \<open>pow2 (- 1022)\<close>. \<open>fl x\<close> is the double nearest to
  the real number \<open>x\<close>: \<open>x\<close> is divided by the spacing \<open>ulp x\<close> of the doubles around it,
  the quotient is rounded to an integer, and the result is scaled back. The exponent
  range is not bounded above: a result beyond the largest double, where the hardware
  gives an infinity, is outside the model, except in \<^verbatim>\<open>math.exp\<close> and in the conversion of
  an integer, where Python raises \<^verbatim>\<open>OverflowError\<close>.
\<close>

definition pow2 :: "int \<Rightarrow> real" where
  "pow2 k = (if 0 \<le> k then 2 ^ nat k else 1 / 2 ^ nat (- k))"

definition round_half_even :: "real \<Rightarrow> int" where
  "round_half_even y =
     (let f = \<lfloor>y\<rfloor>; r = y - of_int f
      in if r < 1 / 2 then f else if 1 / 2 < r then f + 1 else if even f then f else f + 1)"

definition exponent :: "real \<Rightarrow> int" where
  "exponent x = max \<lfloor>log 2 \<bar>x\<bar>\<rfloor> (- 1022)"

definition ulp :: "real \<Rightarrow> real" where
  "ulp x = pow2 (exponent x - 52)"

definition fl :: "real \<Rightarrow> real" where
  "fl x = (if x = 0 then 0 else of_int (round_half_even (x / ulp x)) * ulp x)"

text \<open>The largest significand plus one, and the largest double.\<close>

definition mant :: int where
  "mant = 2 ^ 53"

definition double_max :: real where
  "double_max = (2 ^ 53 - 1) * pow2 971"

text \<open>
  The operators \<^verbatim>\<open>+\<close>, \<^verbatim>\<open>*\<close> and \<^verbatim>\<open>/\<close> on floats (an integer operand is converted first),
  \<^verbatim>\<open>float(i)\<close> for an integer, and \<^verbatim>\<open>math.exp\<close>, which is taken to be the correctly rounded
  exponential and raises when its result is beyond the largest double.
\<close>

definition py_float_add :: "real \<Rightarrow> real \<Rightarrow> real" where
  "py_float_add x y = fl (x + y)"

definition py_float_mul :: "real \<Rightarrow> real \<Rightarrow> real" where
  "py_float_mul x y = fl (x * y)"

definition py_float_div :: "real \<Rightarrow> real \<Rightarrow> error + real" where
  "py_float_div x y = (if y = 0 then Inl ZeroDivisionError else Inr (fl (x / y)))"

definition int_to_float :: "int \<Rightarrow> error + real" where
  "int_to_float i =
     (if double_max < \<bar>fl (of_int i)\<bar> then Inl OverflowError else Inr (fl (of_int i)))"

definition math_exp :: "real \<Rightarrow> error + real" where
  "math_exp x = (if double_max < fl (exp x) then Inl OverflowError else Inr (fl (exp x)))"

section \<open>Python operations on these values\<close>

text \<open>Sequencing of computations that may raise: the first exception is the result.\<close>

definition on_ok :: "error + 'a \<Rightarrow> ('a \<Rightarrow> error + 'b) \<Rightarrow> error + 'b" where
  "on_ok m f = (case m of Inl e \<Rightarrow> Inl e | Inr v \<Rightarrow> f v)"

fun map_err :: "('a \<Rightarrow> error + 'b) \<Rightarrow> 'a list \<Rightarrow> error + 'b list" where
  "map_err f [] = Inr []"
| "map_err f (x # xs) = on_ok (f x) (\<lambda>y. on_ok (map_err f xs) (\<lambda>ys. Inr (y # ys)))"

text \<open>Truth value testing, as used by \<^verbatim>\<open>x or y\<close>.\<close>

fun truthy :: "json \<Rightarrow> bool" where
  "truthy JNull = False"
| "truthy (JBool b) = b"
| "truthy (JInt i) = (i \<noteq> 0)"
| "truthy (JFloat r) = (r \<noteq> 0)"
| "truthy (JStr s) = (s \<noteq> [])"
| "truthy (JList xs) = (xs \<noteq> [])"
| "truthy (JDict kvs) = (kvs \<noteq> [])"

definition py_or :: "json \<Rightarrow> json \<Rightarrow> json" where
  "py_or a b = (if truthy a then a else b)"

text \<open>
  \<^verbatim>\<open>str(v)\<close>: a string is itself; the text of any other value (\<^verbatim>\<open>'None'\<close>, the shortest
  float representation, the \<^verbatim>\<open>repr\<close> of a list or dict) is left to the parameter \<open>repr\<close>,
  which every definition below passes along unchanged.
\<close>

fun py_str :: "(json \<Rightarrow> string) \<Rightarrow> json \<Rightarrow> string" where
  "py_str repr (JStr s) = s"
| "py_str repr v = repr v"

text \<open>
  Iteration (\<^verbatim>\<open>for x in v\<close>, \<^verbatim>\<open>map(str, v)\<close>, \<^verbatim>\<open>' '.join(v)\<close>): a list yields its elements,
  a string its characters, a dict its keys; anything else raises \<^verbatim>\<open>TypeError\<close>.
\<close>

fun py_iter :: "json \<Rightarrow> error + json list" where
  "py_iter (JList xs) = Inr xs"
| "py_iter (JStr s) = Inr (map (\<lambda>c. JStr [c]) s)"
| "py_iter (JDict kvs) = Inr (map (\<lambda>kv. JStr (fst kv)) kvs)"
| "py_iter v = Inl TypeError"

text \<open>\<^verbatim>\<open>' '.join(strings)\<close> on a list of strings.\<close>

fun join_space :: "string list \<Rightarrow> string" where
  "join_space [] = []"
| "join_space [s] = s"
| "join_space (s # t # ts) = s @ '' '' @ join_space (t # ts)"

text \<open>\<^verbatim>\<open>' '.join(v)\<close> on a Python value: every item must already be a string.\<close>

fun as_str :: "json \<Rightarrow> error + string" where
  "as_str (JStr s) = Inr s"
| "as_str v = Inl TypeError"

definition py_join :: "json \<Rightarrow> error + string" where
  "py_join v = on_ok (py_iter v) (\<lambda>xs. on_ok (map_err as_str xs) (\<lambda>ss. Inr (join_space ss)))"

text \<open>
  The operator \<^verbatim>\<open>+\<close>: lists and strings concatenate, numbers (booleans count as 0 and 1)
  add, every other combination raises \<^verbatim>\<open>TypeError\<close>. Two integers add exactly; with a
  float operand the integer is converted and the sum is rounded.
\<close>

fun as_number :: "json \<Rightarrow> (int + real) option" where
  "as_number (JBool b) = Some (Inl (if b then 1 else 0))"
| "as_number (JInt i) = Some (Inl i)"
| "as_number (JFloat r) = Some (Inr r)"
| "as_number v = None"

fun add_numbers :: "int + real \<Rightarrow> int + real \<Rightarrow> error + json" where
  "add_numbers (Inl i) (Inl j) = Inr (JInt (i + j))"
| "add_numbers (Inl i) (Inr r) = on_ok (int_to_float i) (\<lambda>x. Inr (JFloat (py_float_add x r)))"
| "add_numbers (Inr r) (Inl j) = on_ok (int_to_float j) (\<lambda>y. Inr (JFloat (py_float_add r y)))"
| "add_numbers (Inr r) (Inr q) = Inr (JFloat (py_float_add r q))"

fun py_add :: "json \<Rightarrow> json \<Rightarrow> error + json" where
  "py_add (JList xs) (JList ys) = Inr (JList (xs @ ys))"
| "py_add (JStr s) (JStr t) = Inr (JStr (s @ t))"
| "py_add a b =
     (case (as_number a, as_number b) of
        (Some x, Some y) \<Rightarrow> add_numbers x y
      | _ \<Rightarrow> Inl TypeError)"

section \<open>Helpers (src/utils/helpers.py)\<close>

text \<open>
  \<^verbatim>\<open>safe_get_nested(dictionary, *keys, default=None)\<close>: follow the keys while the current
  value is a dict holding the key, otherwise return the default (here \<open>dflt\<close>); at the end return
  \<^verbatim>\<open>current or default\<close>.
\<close>

fun safe_get_nested :: "json \<Rightarrow> string list \<Rightarrow> json \<Rightarrow> json" where
  "safe_get_nested current [] dflt = py_or current dflt"
| "safe_get_nested current (key # keys) dflt =
     (case current of
        JDict kvs \<Rightarrow>
          (case map_of kvs key of
             None \<Rightarrow> dflt
           | Some v \<Rightarrow> safe_get_nested v keys dflt)
      | _ \<Rightarrow> dflt)"

text \<open>
  \<^verbatim>\<open>safe_join(items, default=None)\<close>: \<^verbatim>\<open>items = items or default or []\<close>, then
  \<^verbatim>\<open>" ".join(map(str, items))\<close>.
\<close>

definition safe_join :: "(json \<Rightarrow> string) \<Rightarrow> json \<Rightarrow> json \<Rightarrow> error + string" where
  "safe_join repr items dflt =
     on_ok (py_iter (py_or (py_or items dflt) (JList [])))
       (\<lambda>xs. Inr (join_space (map (py_str repr) xs)))"

section \<open>Canonical serializer (src/ranking/text_formatting.py, src/ranking/prompts.py)\<close>

text \<open>The text put in place of a \<^verbatim>\<open>{placeholder}\<close> of a template by \<^verbatim>\<open>str.format\<close>.\<close>

type_synonym placeholder = string

definition nl :: string where
  "nl = [CHR 0x0A]"

text \<open>The template \<^verbatim>\<open>resume_signal_text\<close>, applied to its five placeholders.\<close>

definition resume_signal_text ::
  "placeholder \<Rightarrow> placeholder \<Rightarrow> placeholder \<Rightarrow> placeholder \<Rightarrow> placeholder \<Rightarrow> string" where
  "resume_signal_text professional_summary skills job_roles_and_achivements projects certificates =
     nl @ ''Professional Summary: '' @ nl @ professional_summary @ nl @ nl
     @ ''Skills: '' @ nl @ skills @ nl @ nl
     @ ''Job Roles and Achievements: '' @ nl @ job_roles_and_achivements @ nl @ nl
     @ ''Projects:'' @ nl @ projects @ nl @ nl
     @ ''Certifications:'' @ nl @ certificates @ nl"

text \<open>The template \<^verbatim>\<open>job_signal_text\<close>, applied to its nine placeholders.\<close>

definition job_signal_text ::
  "placeholder \<Rightarrow> placeholder \<Rightarrow> placeholder \<Rightarrow> placeholder \<Rightarrow> placeholder \<Rightarrow> placeholder
     \<Rightarrow> placeholder \<Rightarrow> placeholder \<Rightarrow> placeholder \<Rightarrow> string" where
  "job_signal_text job_title seniority key_responsibilities required_skills required_tools
       preferred_skills preferred_tools required_experience domain_knowledge =
     nl @ ''Job Title: '' @ nl @ job_title @ nl @ nl
     @ ''Seniority: '' @ nl @ seniority @ nl @ nl
     @ ''Key Responsibilities: '' @ nl @ key_responsibilities @ nl @ nl
     @ ''Required Skills:'' @ nl @ required_skills @ nl @ nl
     @ ''Required Tools:'' @ nl @ required_tools @ nl @ nl
     @ ''Preferred Skills: '' @ nl @ preferred_skills @ nl @ nl
     @ ''Preferred Tools:'' @ nl @ preferred_tools @ nl @ nl
     @ ''Required Experience:'' @ nl @ required_experience @ nl @ nl
     @ ''Domain Knowledge:'' @ nl @ domain_knowledge @ nl"

definition format_job_description :: "(json \<Rightarrow> string) \<Rightarrow> json \<Rightarrow> error + string" where
  "format_job_description repr structured_job_description =
     (let job_context = safe_get_nested structured_job_description [''job_context''] (JDict []);
          role_description = safe_get_nested structured_job_description [''role_description''] (JDict []);
          hard_requirements = safe_get_nested structured_job_description [''hard_requirements''] (JDict []);
          preferred_quals =
            safe_get_nested structured_job_description [''preferred_qualifications''] (JDict [])
      in
      on_ok (safe_join repr (safe_get_nested role_description [''key_responsibilities''] (JList [])) JNull)
        (\<lambda>key_responsibilities.
      on_ok (safe_join repr (safe_get_nested hard_requirements [''must_have_skills''] (JList [])) JNull)
        (\<lambda>required_skills.
      on_ok (safe_join repr (safe_get_nested hard_requirements [''must_have_tools''] (JList [])) JNull)
        (\<lambda>required_tools.
      on_ok (safe_join repr (safe_get_nested preferred_quals [''preferred_skills''] (JList [])) JNull)
        (\<lambda>preferred_skills.
      on_ok (safe_join repr (safe_get_nested preferred_quals [''preferred_tools''] (JList [])) JNull)
        (\<lambda>preferred_tools.
      on_ok (safe_join repr
               (safe_get_nested hard_requirements [''required_experience_type''] (JList [])) JNull)
        (\<lambda>required_experience.
      on_ok (safe_join repr (safe_get_nested role_description [''domain_knowledge''] (JList [])) JNull)
        (\<lambda>domain_knowledge.
      Inr (job_signal_text
             (py_str repr (safe_get_nested job_context [''job_title''] (JStr [])))
             (py_str repr (safe_get_nested job_context [''seniority_level''] (JStr [])))
             key_responsibilities required_skills required_tools preferred_skills
             preferred_tools required_experience domain_knowledge)))))))))"

text \<open>The body of the loop over \<^verbatim>\<open>work_experience\<close>: one line per job.\<close>

definition job_role_text :: "(json \<Rightarrow> string) \<Rightarrow> json \<Rightarrow> error + string" where
  "job_role_text repr job =
     (let company = safe_get_nested job [''company''] (JStr []);
          role = safe_get_nested job [''job_title''] (JStr []);
          achievements = safe_get_nested job [''achievements''] (JList [])
      in on_ok (py_join achievements)
           (\<lambda>joined. Inr (py_str repr role @ '' at '' @ py_str repr company @ '': '' @ joined)))"

text \<open>The body of the loop over \<^verbatim>\<open>projects\<close>: one line per project.\<close>

definition project_text :: "(json \<Rightarrow> string) \<Rightarrow> json \<Rightarrow> string" where
  "project_text repr proj =
     (let name = safe_get_nested proj [''project_name''] (JStr []);
          desc = safe_get_nested proj [''description''] (JStr [])
      in py_str repr name @ '': '' @ py_str repr desc)"

definition format_resume :: "(json \<Rightarrow> string) \<Rightarrow> json \<Rightarrow> error + string" where
  "format_resume repr candidate_data =
     (let skills_section = safe_get_nested candidate_data [''skills_section''] (JDict []) in
      on_ok (py_add (safe_get_nested skills_section [''programming_languages''] (JList []))
                    (safe_get_nested skills_section [''frameworks_and_libraries''] (JList [])))
        (\<lambda>first_two.
      on_ok (py_add first_two (safe_get_nested skills_section [''platforms_and_tools''] (JList [])))
        (\<lambda>all_skills.
      on_ok (py_iter (safe_get_nested candidate_data [''work_experience''] (JList [])))
        (\<lambda>work_experience.
      on_ok (map_err (job_role_text repr) work_experience)
        (\<lambda>job_roles.
      on_ok (py_iter (safe_get_nested candidate_data [''projects''] (JList [])))
        (\<lambda>projects.
      let project_texts = map (project_text repr) projects in
      on_ok (safe_join repr all_skills JNull)
        (\<lambda>skills.
      on_ok (safe_join repr (JList (map JStr job_roles)) JNull)
        (\<lambda>job_roles_and_achivements.
      on_ok (safe_join repr (JList (map JStr project_texts)) JNull)
        (\<lambda>projects_joined.
      on_ok (safe_join repr (safe_get_nested candidate_data [''certifications''] (JList [])) JNull)
        (\<lambda>certificates.
      Inr (resume_signal_text
             (py_str repr (safe_get_nested candidate_data [''professional_summary''] (JStr [])))
             skills job_roles_and_achivements projects_joined certificates)))))))))))"

section \<open>Sorting and slicing\<close>

text \<open>
  \<^verbatim>\<open>sorted(xs, key=key, reverse=True)\<close>: a stable sort into descending key order. Each
  element is inserted in front of the first element whose key is not larger, so elements
  with equal keys keep their input order.
\<close>

fun insort_desc :: "('a \<Rightarrow> real) \<Rightarrow> 'a \<Rightarrow> 'a list \<Rightarrow> 'a list" where
  "insort_desc key x [] = [x]"
| "insort_desc key x (y # ys) =
     (if key x < key y then y # insort_desc key x ys else x # y # ys)"

definition sorted_reverse :: "('a \<Rightarrow> real) \<Rightarrow> 'a list \<Rightarrow> 'a list" where
  "sorted_reverse key xs = foldr (insort_desc key) xs []"

text \<open>
  The slice \<^verbatim>\<open>xs[:n]\<close>: the first \<open>n\<close> elements for \<open>n \<ge> 0\<close>, and all but the last \<open>-n\<close>
  elements for \<open>n < 0\<close>.
\<close>

definition py_slice_to :: "'a list \<Rightarrow> int \<Rightarrow> 'a list" where
  "py_slice_to xs n =
     (if 0 \<le> n then take (nat n) xs else take (length xs - nat (- n)) xs)"

section \<open>Stage 1: similarity filter (src/ranking/bi_encoder.py)\<close>

text \<open>
  Entries of both rankings are dicts with a fixed set of keys, hence records; both carry
  \<^verbatim>\<open>"candidate_name"\<close>.
\<close>

record named =
  candidate_name :: json

record ranking_entry = named +
  rank :: real

text \<open>
  The embedding capability is the parameter \<open>bi_encoder_model\<close>: for the job text and one
  resume text it stands for \<^verbatim>\<open>bi_encoder_model.encode\<close> followed by
  \<^verbatim>\<open>util.pytorch_cos_sim(...).item()\<close>, and it may raise. The body of the loop over the
  candidates:
\<close>

definition stage1_entry ::
  "(json \<Rightarrow> string) \<Rightarrow> (string \<Rightarrow> string \<Rightarrow> error + real) \<Rightarrow> string \<Rightarrow> json \<Rightarrow> error + ranking_entry" where
  "stage1_entry repr bi_encoder_model job_des_text candidate_data =
     on_ok (format_resume repr candidate_data)
       (\<lambda>resume_text.
     on_ok (bi_encoder_model job_des_text resume_text)
       (\<lambda>score.
     Inr \<lparr>candidate_name =
            safe_get_nested candidate_data [''contact_info'', ''name''] (JStr ''Unknown Candidate''),
          rank = score\<rparr>))"

definition bi_encoder_resume_filtering ::
  "(json \<Rightarrow> string) \<Rightarrow> json \<Rightarrow> json list \<Rightarrow> (string \<Rightarrow> string \<Rightarrow> error + real)
     \<Rightarrow> error + ranking_entry list" where
  "bi_encoder_resume_filtering repr structured_job_description structured_candidate_resumes
       bi_encoder_model =
     on_ok (format_job_description repr structured_job_description)
       (\<lambda>job_des_text.
     on_ok (map_err (stage1_entry repr bi_encoder_model job_des_text) structured_candidate_resumes)
       (\<lambda>results.
     Inr (sorted_reverse rank results)))"

section \<open>The judge (src/ranking/llm_judge.py, src/models/schema.py)\<close>

record match_criterion =
  criterion :: string
  is_match :: bool
  comment :: string

record llm_judgment =
  detailed_analysis :: string
  pros :: "string list"
  cons :: "string list"
  final_score :: real
  match_criteria :: "match_criterion list"

text \<open>
  \<^verbatim>\<open>llm_as_a_judge\<close> asks the client for a judgment in the \<^verbatim>\<open>LLMJudgment\<close> schema and catches
  every exception of the call. Its result is a dict: \<open>Some j\<close> is the dict holding the
  fields of \<open>j\<close>, \<open>None\<close> is the empty dict \<^verbatim>\<open>{}\<close> returned on failure. The client is a
  parameter that may raise.
\<close>

definition llm_as_a_judge ::
  "(json \<Rightarrow> json \<Rightarrow> error + llm_judgment) \<Rightarrow> json \<Rightarrow> json \<Rightarrow> llm_judgment option" where
  "llm_as_a_judge client job_requirements resume_info =
     (case client job_requirements resume_info of
        Inr judgment \<Rightarrow> Some judgment
      | Inl e \<Rightarrow> None)"

section \<open>Stage 2: fusion scorer (src/ranking/cross_encoder_llm.py)\<close>

text \<open>
  Keys of a Python dict: values that compare equal (\<^verbatim>\<open>True == 1 == 1.0\<close>) are the same
  key, and lists and dicts are unhashable.
\<close>

datatype key = KNone | KNum real | KStr string

fun py_hash :: "json \<Rightarrow> error + key" where
  "py_hash JNull = Inr KNone"
| "py_hash (JBool b) = Inr (KNum (if b then 1 else 0))"
| "py_hash (JInt i) = Inr (KNum (of_int i))"
| "py_hash (JFloat r) = Inr (KNum r)"
| "py_hash (JStr s) = Inr (KStr s)"
| "py_hash (JList xs) = Inl TypeError"
| "py_hash (JDict kvs) = Inl TypeError"

text \<open>
  \<^verbatim>\<open>a == b\<close> for the candidate names compared in the second loop. Every name reaching that
  loop has passed the membership test \<^verbatim>\<open>name in candidate_data_by_name\<close> of the first loop,
  so it is hashable, and hashable values are equal exactly when they are the same key.
\<close>

definition py_eq :: "json \<Rightarrow> json \<Rightarrow> bool" where
  "py_eq a b =
     (case (py_hash a, py_hash b) of
        (Inr j, Inr k) \<Rightarrow> j = k
      | _ \<Rightarrow> False)"

text \<open>
  The dict comprehension
  \<^verbatim>\<open>{safe_get_nested(c, "contact_info", "name"): c for c in structured_resumes}\<close>:
  a later resume replaces an earlier one under the same key.
\<close>

fun dict_of_resumes :: "(key \<rightharpoonup> json) \<Rightarrow> json list \<Rightarrow> error + (key \<rightharpoonup> json)" where
  "dict_of_resumes d [] = Inr d"
| "dict_of_resumes d (c # cs) =
     on_ok (py_hash (safe_get_nested c [''contact_info'', ''name''] JNull))
       (\<lambda>k. dict_of_resumes (d(k \<mapsto> c)) cs)"

definition candidate_data_by_name :: "json list \<Rightarrow> error + (key \<rightharpoonup> json)" where
  "candidate_data_by_name structured_resumes = dict_of_resumes Map.empty structured_resumes"

text \<open>
  The logistic rescaling of the raw cross-encoder score,
  \<^verbatim>\<open>(1 / (1 + math.exp(-raw_score))) * 10.0\<close>, each operation on doubles.
\<close>

definition sigmoid_score :: "real \<Rightarrow> error + real" where
  "sigmoid_score raw_score =
     on_ok (math_exp (- raw_score))
       (\<lambda>e. on_ok (py_float_div 1 (py_float_add 1 e))
          (\<lambda>t. Inr (py_float_mul t 10)))"

text \<open>
  The first loop fills \<^verbatim>\<open>llm_results\<close> and \<^verbatim>\<open>cross_encoder_scores\<close>, one entry each per
  name found in the dict. An entry of \<^verbatim>\<open>llm_results\<close> is the name with the judgment dict
  merged in, an entry of \<^verbatim>\<open>cross_encoder_scores\<close> the name with the rescaled score. The
  pairwise capability is the parameter \<open>cross_encoder_model\<close>, standing for
  \<^verbatim>\<open>float(cross_encoder_model.predict([(job_text, resume_text)])[0])\<close>; it may raise.
\<close>

fun score_candidates ::
  "(json \<Rightarrow> string) \<Rightarrow> (json \<Rightarrow> json \<Rightarrow> error + llm_judgment) \<Rightarrow> (string \<Rightarrow> string \<Rightarrow> error + real)
     \<Rightarrow> json \<Rightarrow> string \<Rightarrow> (key \<rightharpoonup> json) \<Rightarrow> json list
     \<Rightarrow> error + ((json \<times> llm_judgment option) list \<times> (json \<times> real) list)" where
  "score_candidates repr client cross_encoder_model structured_job_description job_text by_name [] =
     Inr ([], [])"
| "score_candidates repr client cross_encoder_model structured_job_description job_text by_name
       (name # names) =
     on_ok (py_hash name)
       (\<lambda>k. case by_name k of
          None \<Rightarrow>
            score_candidates repr client cross_encoder_model structured_job_description job_text
              by_name names
        | Some candidate_data \<Rightarrow>
            (let llm_judgement = llm_as_a_judge client structured_job_description candidate_data in
             on_ok (format_resume repr candidate_data)
               (\<lambda>resume_text.
             on_ok (cross_encoder_model job_text resume_text)
               (\<lambda>raw_score.
             on_ok (sigmoid_score raw_score)
               (\<lambda>score.
             on_ok (score_candidates repr client cross_encoder_model structured_job_description
                      job_text by_name names)
               (\<lambda>rest. Inr ((name, llm_judgement) # fst rest, (name, score) # snd rest)))))))"

record fusion_entry = named +
  llm_score :: real
  cross_encoder_score :: real
  combined_score :: real
  llm_analysis :: "(json \<times> llm_judgment option) option"

text \<open>
  The body of the second loop. \<^verbatim>\<open>next(..., {})\<close> is \<^const>\<open>find\<close>, with \<open>None\<close> for the
  empty dict; \<^verbatim>\<open>.get("final_score", 0)\<close> and \<^verbatim>\<open>.get("cross_encoder_score", 0)\<close> give 0 where
  the key is absent.
\<close>

definition combine ::
  "(json \<times> llm_judgment option) list \<Rightarrow> (json \<times> real) list \<Rightarrow> real \<Rightarrow> real \<Rightarrow> json \<Rightarrow> fusion_entry" where
  "combine llm_results cross_encoder_scores llm_weight cross_encoder_weight name =
     (let llm_result = find (\<lambda>r. py_eq (fst r) name) llm_results;
          cross_result = find (\<lambda>s. py_eq (fst s) name) cross_encoder_scores;
          llm_score = (case llm_result of
                         Some (n, Some judgment) \<Rightarrow> final_score judgment
                       | _ \<Rightarrow> 0);
          cross_score = (case cross_result of Some (n, score) \<Rightarrow> score | None \<Rightarrow> 0);
          combined_score =
            py_float_add (py_float_mul llm_score llm_weight)
              (py_float_mul cross_score cross_encoder_weight)
      in \<lparr>candidate_name = name, llm_score = llm_score, cross_encoder_score = cross_score,
          combined_score = combined_score, llm_analysis = llm_result\<rparr>)"

definition score_and_rank ::
  "(json \<Rightarrow> string) \<Rightarrow> (json \<Rightarrow> json \<Rightarrow> error + llm_judgment) \<Rightarrow> ranking_entry list \<Rightarrow> json list
     \<Rightarrow> json \<Rightarrow> (string \<Rightarrow> string \<Rightarrow> error + real) \<Rightarrow> int \<Rightarrow> real \<Rightarrow> real
     \<Rightarrow> error + fusion_entry list" where
  "score_and_rank repr client bi_encoder_ranking structured_resumes structured_job_description
       cross_encoder_model top_n llm_weight cross_encoder_weight =
     (let top_candidates = py_slice_to bi_encoder_ranking top_n;
          top_candidate_names = map candidate_name top_candidates
      in
      on_ok (candidate_data_by_name structured_resumes)
        (\<lambda>by_name.
      on_ok (format_job_description repr structured_job_description)
        (\<lambda>job_text.
      on_ok (score_candidates repr client cross_encoder_model structured_job_description job_text
               by_name top_candidate_names)
        (\<lambda>lists.
      Inr (sorted_reverse combined_score
             (map (combine (fst lists) (snd lists) llm_weight cross_encoder_weight)
                top_candidate_names))))))"

text \<open>
  The record a candidate name stands for in Stage 2: \<^verbatim>\<open>candidate_data_by_name[name]\<close> where
  \<^verbatim>\<open>name in candidate_data_by_name\<close> holds. It is used to state the properties below.
\<close>

definition resolve :: "(key \<rightharpoonup> json) \<Rightarrow> json \<Rightarrow> json option" where
  "resolve by_name name = (case py_hash name of Inl e \<Rightarrow> None | Inr k \<Rightarrow> by_name k)"

text \<open>The same, starting from the list of resumes; \<open>None\<close> also when building the dict raises.\<close>

definition record_for :: "json list \<Rightarrow> json \<Rightarrow> json option" where
  "record_for structured_resumes name =
     (case candidate_data_by_name structured_resumes of
        Inl e \<Rightarrow> None
      | Inr by_name \<Rightarrow> resolve by_name name)"

text \<open>
  The candidates whose \<^verbatim>\<open>contact_info.name\<close> is missing (also because \<^verbatim>\<open>contact_info\<close> is
  missing or is not a dict), null or the empty string.
\<close>

definition nameless :: "json \<Rightarrow> bool" where
  "nameless candidate_data =
     (case candidate_data of
        JDict kvs \<Rightarrow>
          (case map_of kvs ''contact_info'' of
             Some (JDict contact_info) \<Rightarrow>
               (case map_of contact_info ''name'' of
                  None \<Rightarrow> True
                | Some v \<Rightarrow> v = JNull \<or> v = JStr [])
           | _ \<Rightarrow> True)
      | _ \<Rightarrow> True)"

text \<open>
  Records as the serializer tolerates them. A field is acceptable when it is missing (also
  because the value that should hold it is not a dict), when it is null or another false
  value, or when its value passes the test \<open>ok\<close>.
\<close>

fun is_list :: "json \<Rightarrow> bool" where
  "is_list (JList xs) = True"
| "is_list v = False"

fun is_str :: "json \<Rightarrow> bool" where
  "is_str (JStr s) = True"
| "is_str v = False"

definition field_ok :: "(json \<Rightarrow> bool) \<Rightarrow> json \<Rightarrow> string \<Rightarrow> bool" where
  "field_ok ok record_value key =
     (case record_value of
        JDict kvs \<Rightarrow>
          (case map_of kvs key of None \<Rightarrow> True | Some v \<Rightarrow> \<not> truthy v \<or> ok v)
      | _ \<Rightarrow> True)"

text \<open>A work-experience entry: its achievements, where present, are a list of strings.\<close>

fun str_items :: "json \<Rightarrow> bool" where
  "str_items (JList xs) = list_all is_str xs"
| "str_items v = False"

definition job_entry_ok :: "json \<Rightarrow> bool" where
  "job_entry_ok job = field_ok str_items job ''achievements''"

fun job_entries :: "json \<Rightarrow> bool" where
  "job_entries (JList jobs) = list_all job_entry_ok jobs"
| "job_entries v = False"

text \<open>A resume: every field read as a list is acceptable with a list in it.\<close>

definition resume_ok :: "json \<Rightarrow> bool" where
  "resume_ok candidate_data =
     (let skills_section = safe_get_nested candidate_data [''skills_section''] (JDict []) in
      field_ok is_list skills_section ''programming_languages'' \<and>
      field_ok is_list skills_section ''frameworks_and_libraries'' \<and>
      field_ok is_list skills_section ''platforms_and_tools'' \<and>
      field_ok job_entries candidate_data ''work_experience'' \<and>
      field_ok is_list candidate_data ''projects'' \<and>
      field_ok is_list candidate_data ''certifications'')"

text \<open>A job description, likewise.\<close>

definition job_ok :: "json \<Rightarrow> bool" where
  "job_ok structured_job_description =
     (let role_description = safe_get_nested structured_job_description [''role_description''] (JDict []);
          hard_requirements = safe_get_nested structured_job_description [''hard_requirements''] (JDict []);
          preferred_quals =
            safe_get_nested structured_job_description [''preferred_qualifications''] (JDict [])
      in
      field_ok is_list role_description ''key_responsibilities'' \<and>
      field_ok is_list hard_requirements ''must_have_skills'' \<and>
      field_ok is_list hard_requirements ''must_have_tools'' \<and>
      field_ok is_list preferred_quals ''preferred_skills'' \<and>
      field_ok is_list preferred_quals ''preferred_tools'' \<and>
      field_ok is_list hard_requirements ''required_experience_type'' \<and>
      field_ok is_list role_description ''domain_knowledge'')"

section \<open>Example data\<close>

text \<open>
  Concrete capabilities and records on which the funnel is run below. The scores the
  capabilities return are doubles: powers of two and small integers.
\<close>

definition example_repr :: "json \<Rightarrow> string" where
  "example_repr v = (if v = JNull then ''None'' else ''?'')"

definition example_bi_encoder :: "string \<Rightarrow> string \<Rightarrow> error + real" where
  "example_bi_encoder job_text resume_text = Inr (1 / 2 ^ length resume_text)"

definition example_cross_encoder :: "string \<Rightarrow> string \<Rightarrow> error + real" where
  "example_cross_encoder job_text resume_text = Inr 0"

definition example_judgment :: llm_judgment where
  "example_judgment =
     \<lparr>detailed_analysis = ''meets the requirements'', pros = [''Python''], cons = [],
      final_score = 8, match_criteria = []\<rparr>"

text \<open>A judge that fails on the candidate called Bob.\<close>

definition example_client :: "json \<Rightarrow> json \<Rightarrow> error + llm_judgment" where
  "example_client job_requirements resume_info =
     (if safe_get_nested resume_info [''contact_info'', ''name''] JNull = JStr ''Bob''
      then Inl CapabilityError else Inr example_judgment)"

definition example_job :: json where
  "example_job =
     JDict [(''job_context'', JDict [(''job_title'', JStr ''Engineer'')]),
            (''hard_requirements'', JDict [(''must_have_skills'', JList [JStr ''Python''])])]"

definition named_resume :: "string \<Rightarrow> string \<Rightarrow> json" where
  "named_resume name summary =
     JDict [(''contact_info'', JDict [(''name'', JStr name)]),
            (''professional_summary'', JStr summary)]"

definition example_pool :: "json list" where
  "example_pool = [named_resume ''Ada'' ''ab'', named_resume ''Bob'' ''a'', named_resume ''Cy'' ''cd'']"

definition example_ranking :: "ranking_entry list" where
  "example_ranking =
     [\<lparr>candidate_name = JStr ''Bob'', rank = 1 / 2 ^ 98\<rparr>,
      \<lparr>candidate_name = JStr ''Ada'', rank = 1 / 2 ^ 99\<rparr>,
      \<lparr>candidate_name = JStr ''Cy'', rank = 1 / 2 ^ 99\<rparr>]"

text \<open>
  The Stage 2 ranking of the example: the judge gives 8 to Ada and Cy and fails on Bob, the
  raw cross-encoder score 0 rescales to 5, the weights are 0.75 and 0.25.
\<close>

definition example_final :: "fusion_entry list" where
  "example_final =
     [\<lparr>candidate_name = JStr ''Ada'', llm_score = 8, cross_encoder_score = 5,
       combined_score = 29 / 4, llm_analysis = Some (JStr ''Ada'', Some example_judgment)\<rparr>,
      \<lparr>candidate_name = JStr ''Cy'', llm_score = 8, cross_encoder_score = 5,
       combined_score = 29 / 4, llm_analysis = Some (JStr ''Cy'', Some example_judgment)\<rparr>,
      \<lparr>candidate_name = JStr ''Bob'', llm_score = 0, cross_encoder_score = 5,
       combined_score = 5 / 4, llm_analysis = Some (JStr ''Bob'', None)\<rparr>]"


text \<open>The Stage 2 ranking of Bob and Ada alone.\<close>

definition example_final_two :: "fusion_entry list" where
  "example_final_two =
     [\<lparr>candidate_name = JStr ''Ada'', llm_score = 8, cross_encoder_score = 5,
       combined_score = 29 / 4, llm_analysis = Some (JStr ''Ada'', Some example_judgment)\<rparr>,
      \<lparr>candidate_name = JStr ''Bob'', llm_score = 0, cross_encoder_score = 5,
       combined_score = 5 / 4, llm_analysis = Some (JStr ''Bob'', None)\<rparr>]"

text \<open>The Stage 2 ranking of the example under the weights -1 and 0.\<close>

definition example_final_negative :: "fusion_entry list" where
  "example_final_negative =
     [\<lparr>candidate_name = JStr ''Bob'', llm_score = 0, cross_encoder_score = 5,
       combined_score = 0, llm_analysis = Some (JStr ''Bob'', None)\<rparr>,
      \<lparr>candidate_name = JStr ''Ada'', llm_score = 8, cross_encoder_score = 5,
       combined_score = - 8, llm_analysis = Some (JStr ''Ada'', Some example_judgment)\<rparr>,
      \<lparr>candidate_name = JStr ''Cy'', llm_score = 8, cross_encoder_score = 5,
       combined_score = - 8, llm_analysis = Some (JStr ''Cy'', Some example_judgment)\<rparr>]"

text \<open>
  A cross-encoder that returns the raw score 38 for every pair, a judge that gives every
  candidate the score 10, and the Stage 2 ranking of the example under them with the
  weights 0.7 and 0.1, that is, the doubles nearest to them.
\<close>

definition saturated_cross_encoder :: "string \<Rightarrow> string \<Rightarrow> error + real" where
  "saturated_cross_encoder job_text resume_text = Inr 38"

definition top_judgment :: llm_judgment where
  "top_judgment =
     \<lparr>detailed_analysis = ''exceeds the requirements'', pros = [''Python''], cons = [],
      final_score = 10, match_criteria = []\<rparr>"

definition top_client :: "json \<Rightarrow> json \<Rightarrow> error + llm_judgment" where
  "top_client job_requirements resume_info = Inr top_judgment"

definition example_final_saturated :: "fusion_entry list" where
  "example_final_saturated =
     [\<lparr>candidate_name = JStr ''Bob'', llm_score = 10, cross_encoder_score = 10,
       combined_score = 8, llm_analysis = Some (JStr ''Bob'', Some top_judgment)\<rparr>,
      \<lparr>candidate_name = JStr ''Ada'', llm_score = 10, cross_encoder_score = 10,
       combined_score = 8, llm_analysis = Some (JStr ''Ada'', Some top_judgment)\<rparr>,
      \<lparr>candidate_name = JStr ''Cy'', llm_score = 10, cross_encoder_score = 10,
       combined_score = 8, llm_analysis = Some (JStr ''Cy'', Some top_judgment)\<rparr>]"

text \<open>A cross-encoder that returns the raw score -717 for every pair.\<close>

definition overflowing_cross_encoder :: "string \<Rightarrow> string \<Rightarrow> error + real" where
  "overflowing_cross_encoder job_text resume_text = Inr (- 717)"

text \<open>Two resumes whose extraction failed: \<^verbatim>\<open>extract_resume_details\<close> returns \<^verbatim>\<open>{}\<close> for each.\<close>

definition failed_extraction_pool :: "json list" where
  "failed_extraction_pool = [JDict [], JDict []]"

text \<open>Their Stage 1 ranking, and the Stage 2 ranking computed from it.\<close>

definition unknown_ranking :: "ranking_entry list" where
  "unknown_ranking =
     [\<lparr>candidate_name = JStr ''Unknown Candidate'', rank = 1 / 2 ^ 97\<rparr>,
      \<lparr>candidate_name = JStr ''Unknown Candidate'', rank = 1 / 2 ^ 97\<rparr>]"

definition unknown_final :: "fusion_entry list" where
  "unknown_final =
     [\<lparr>candidate_name = JStr ''Unknown Candidate'', llm_score = 0, cross_encoder_score = 0,
       combined_score = 0, llm_analysis = None\<rparr>,
      \<lparr>candidate_name = JStr ''Unknown Candidate'', llm_score = 0, cross_encoder_score = 0,
       combined_score = 0, llm_analysis = None\<rparr>]"

text \<open>
  A resume in the shape of \<^verbatim>\<open>StructuredResume\<close> with empty skill lists and no work
  experience.
\<close>

definition empty_skills_resume :: json where
  "empty_skills_resume =
     JDict [(''contact_info'', JDict [(''name'', JStr ''Dee''), (''email'', JNull)]),
            (''professional_summary'', JStr ''Analyst''),
            (''skills_section'',
               JDict [(''programming_languages'', JList []),
                      (''frameworks_and_libraries'', JList []),
                      (''platforms_and_tools'', JList [])]),
            (''work_experience'', JList []),
            (''projects'', JList []),
            (''education'', JList []),
            (''certifications'', JList [])]"

text \<open>A resume whose programming languages are a string instead of a list.\<close>

definition string_skills_resume :: json where
  "string_skills_resume =
     JDict [(''contact_info'', JDict [(''name'', JStr ''Fay'')]),
            (''skills_section'', JDict [(''programming_languages'', JStr ''Python'')])]"

section \<open>Basic facts\<close>

lemma on_ok_Inr_iff: "on_ok m f = Inr r \<longleftrightarrow> (\<exists>v. m = Inr v \<and> f v = Inr r)"
  by (cases m) (simp_all add: on_ok_def)

lemma on_ok_Inr [simp]: "on_ok (Inr v) f = f v"
  by (simp add: on_ok_def)

lemma on_ok_Inl [simp]: "on_ok (Inl e) f = Inl e"
  by (simp add: on_ok_def)

lemma map_err_Inr:
  "map_err f xs = Inr ys \<Longrightarrow> list_all2 (\<lambda>x y. f x = Inr y) xs ys"
proof (induction xs arbitrary: ys)
  case Nil
  then show ?case by simp
next
  case (Cons x xs)
  then show ?case by (auto simp: on_ok_Inr_iff)
qed

lemma map_err_total:
  "(\<forall>x \<in> set xs. \<exists>y. f x = Inr y) \<Longrightarrow> \<exists>ys. map_err f xs = Inr ys"
  by (induction xs) auto

lemma mset_insort_desc: "mset (insort_desc key x xs) = add_mset x (mset xs)"
  by (induction xs) auto

lemma mset_sorted_reverse: "mset (sorted_reverse key xs) = mset xs"
  by (induction xs) (simp_all add: sorted_reverse_def mset_insort_desc)






section \<open>Facts about double-precision arithmetic\<close>

lemma pow2_powr: "pow2 k = 2 powr (of_int k)"
  by (simp add: pow2_def powr_int)

lemma pow2_pos [simp]: "0 < pow2 k"
  by (simp add: pow2_powr)

lemma pow2_nonzero [simp]: "pow2 k \<noteq> 0"
  using pow2_pos [of k] by (simp del: pow2_pos)

lemma pow2_nonneg [simp]: "0 \<le> pow2 k"
  using pow2_pos [of k] by (simp only: less_imp_le)

lemma pow2_add: "pow2 (j + k) = pow2 j * pow2 k"
  by (simp add: pow2_powr powr_add)

lemma pow2_diff: "pow2 (j - k) = pow2 j / pow2 k"
  by (simp add: pow2_powr powr_diff)

lemma pow2_mono: "j \<le> k \<Longrightarrow> pow2 j \<le> pow2 k"
  by (simp add: pow2_powr)

lemma pow2_less: "j < k \<Longrightarrow> pow2 j < pow2 k"
  by (simp add: pow2_powr)

lemma pow2_nat: "pow2 (int n) = 2 ^ n"
  by (simp add: pow2_def)

lemma round_half_even_int [simp]: "round_half_even (of_int n) = n"
  by (simp add: round_half_even_def)

lemma round_half_even_zero [simp]: "round_half_even 0 = 0"
  by (simp add: round_half_even_def)

lemma abs_pow2 [simp]: "\<bar>pow2 k\<bar> = pow2 k"
  by (simp add: abs_of_pos)

lemma round_half_even_error: "\<bar>of_int (round_half_even y) - y\<bar> \<le> 1 / 2"
  unfolding round_half_even_def Let_def by (auto split: if_splits)

lemma round_half_even_mono: "y \<le> z \<Longrightarrow> round_half_even y \<le> round_half_even z"
proof -
  assume yz: "y \<le> z"
  have fy: "\<lfloor>y\<rfloor> \<le> round_half_even y" "round_half_even y \<le> \<lfloor>y\<rfloor> + 1"
    and fz: "\<lfloor>z\<rfloor> \<le> round_half_even z" "round_half_even z \<le> \<lfloor>z\<rfloor> + 1"
    by (auto simp: round_half_even_def Let_def)
  have le: "\<lfloor>y\<rfloor> \<le> \<lfloor>z\<rfloor>" using yz by (rule floor_mono)
  show ?thesis
  proof (cases "\<lfloor>y\<rfloor> = \<lfloor>z\<rfloor>")
    case True
    then have "y - of_int \<lfloor>y\<rfloor> \<le> z - of_int \<lfloor>z\<rfloor>" using yz by simp
    then show ?thesis
      using True unfolding round_half_even_def Let_def by (auto split: if_splits)
  next
    case False
    then have "\<lfloor>y\<rfloor> + 1 \<le> \<lfloor>z\<rfloor>" using le by simp
    then show ?thesis using fy fz by linarith
  qed
qed

lemma round_half_even_uminus: "round_half_even (- y) = - round_half_even y"
proof (cases "y = of_int \<lfloor>y\<rfloor>")
  case True
  then obtain n where "y = of_int n" by metis
  then have "- y = of_int (- n)" by simp
  then show ?thesis using \<open>y = of_int n\<close> by (metis round_half_even_int)
next
  case False
  then have c: "\<lceil>y\<rceil> = \<lfloor>y\<rfloor> + 1"
    by (metis ceiling_altdef of_int_floor_cancel)
  have fm: "\<lfloor>- y\<rfloor> = - \<lfloor>y\<rfloor> - 1"
    using c by (simp add: floor_minus)
  have lt: "of_int \<lfloor>y\<rfloor> < y" using False by (metis floor_correct less_eq_real_def of_int_floor_le)
  show ?thesis
    unfolding round_half_even_def Let_def fm using lt by (auto split: if_splits)
qed

lemma floor_log2_iff:
  "x \<noteq> 0 \<Longrightarrow> \<lfloor>log 2 \<bar>x\<bar>\<rfloor> = k \<longleftrightarrow> pow2 k \<le> \<bar>x\<bar> \<and> \<bar>x\<bar> < pow2 (k + 1)"
  using floor_log_eq_powr_iff [of "\<bar>x\<bar>" 2 k] by (simp add: pow2_powr)

lemma exponent_normal:
  "x \<noteq> 0 \<Longrightarrow> pow2 e \<le> \<bar>x\<bar> \<Longrightarrow> \<bar>x\<bar> < pow2 (e + 1) \<Longrightarrow> - 1022 \<le> e \<Longrightarrow> exponent x = e"
  using floor_log2_iff [of x e] by (simp add: exponent_def)

lemma exponent_subnormal:
  assumes "x \<noteq> 0" "\<bar>x\<bar> < pow2 (- 1022)"
  shows "exponent x = - 1022"
proof -
  define l where "l = \<lfloor>log 2 \<bar>x\<bar>\<rfloor>"
  have "pow2 l \<le> \<bar>x\<bar>"
    using floor_log2_iff [of x l] assms(1) by (simp add: l_def)
  then have "pow2 l < pow2 (- 1022)" using assms(2) by simp
  then have "l < - 1022"
    by (metis pow2_mono not_less)
  then show ?thesis by (simp add: exponent_def l_def)
qed

lemma exponent_ge [simp]: "- 1022 \<le> exponent x"
  by (simp add: exponent_def)

lemma exponent_upper: "x \<noteq> 0 \<Longrightarrow> \<bar>x\<bar> < pow2 (exponent x + 1)"
proof -
  assume x: "x \<noteq> 0"
  define l where "l = \<lfloor>log 2 \<bar>x\<bar>\<rfloor>"
  have "\<bar>x\<bar> < pow2 (l + 1)"
    using floor_log2_iff [of x l] x by (simp add: l_def)
  also have "\<dots> \<le> pow2 (exponent x + 1)"
    by (rule pow2_mono) (simp add: exponent_def l_def)
  finally show ?thesis .
qed

lemma exponent_lower: "x \<noteq> 0 \<Longrightarrow> pow2 (exponent x) \<le> \<bar>x\<bar> \<or> exponent x = - 1022"
proof -
  assume x: "x \<noteq> 0"
  define l where "l = \<lfloor>log 2 \<bar>x\<bar>\<rfloor>"
  have "pow2 l \<le> \<bar>x\<bar>"
    using floor_log2_iff [of x l] x by (simp add: l_def)
  then show ?thesis
    by (cases "l \<le> - 1022") (auto simp: exponent_def l_def max_def)
qed

lemma exponent_uminus [simp]: "exponent (- x) = exponent x"
  by (simp add: exponent_def)

lemma ulp_pos [simp]: "0 < ulp x"
  by (simp add: ulp_def)

lemma ulp_nonneg [simp]: "0 \<le> ulp x"
  using ulp_pos [of x] by (simp only: less_imp_le)

lemma ulp_nonzero [simp]: "ulp x \<noteq> 0"
  by (simp add: ulp_def)

lemma ulp_uminus [simp]: "ulp (- x) = ulp x"
  by (simp add: ulp_def)

lemma fl_zero [simp]: "fl 0 = 0"
  by (simp add: fl_def)

lemma fl_uminus: "fl (- x) = - fl x"
  by (simp add: fl_def round_half_even_uminus)

lemma fl_normal:
  "x \<noteq> 0 \<Longrightarrow> pow2 e \<le> \<bar>x\<bar> \<Longrightarrow> \<bar>x\<bar> < pow2 (e + 1) \<Longrightarrow> - 1022 \<le> e \<Longrightarrow>
   fl x = of_int (round_half_even (x / pow2 (e - 52))) * pow2 (e - 52)"
  by (simp add: fl_def ulp_def exponent_normal)

lemma fl_subnormal:
  "\<bar>x\<bar> < pow2 (- 1022) \<Longrightarrow>
   fl x = of_int (round_half_even (x / pow2 (- 1074))) * pow2 (- 1074)"
  by (cases "x = 0") (simp_all add: fl_def ulp_def exponent_subnormal)

text \<open>Rounding to a grid of step \<open>q\<close>.\<close>

lemma grid_mono:
  "0 < q \<Longrightarrow> x \<le> y \<Longrightarrow>
   of_int (round_half_even (x / q)) * q \<le> of_int (round_half_even (y / q)) * q"
proof -
  assume q: "0 < q" and xy: "x \<le> y"
  have "x / q \<le> y / q" using q xy by (simp add: divide_right_mono)
  then have "round_half_even (x / q) \<le> round_half_even (y / q)"
    by (rule round_half_even_mono)
  then have "(of_int (round_half_even (x / q)) :: real) \<le> of_int (round_half_even (y / q))"
    by simp
  then show ?thesis using q by (simp add: mult_right_mono)
qed

lemma grid_fix:
  "0 < q \<Longrightarrow> of_int (round_half_even (of_int m * q / q)) * q = of_int m * q"
  by simp

lemma fl_of_grid:
  assumes "x \<noteq> 0" "x / ulp x = of_int n"
  shows "fl x = x"
proof -
  have "fl x = of_int n * ulp x"
    using assms by (simp add: fl_def)
  also have "\<dots> = x"
    using assms(2) by (metis nonzero_divide_eq_eq ulp_pos less_irrefl)
  finally show ?thesis .
qed

lemma fl_representable:
  assumes "\<bar>m\<bar> < 2 ^ 53" "- 1074 \<le> k"
  shows "fl (of_int m * pow2 k) = of_int m * pow2 k"
proof (cases "m = 0")
  case True
  then show ?thesis by simp
next
  case False
  define x where "x = of_int m * pow2 k"
  have x0: "x \<noteq> 0" using False by (simp add: x_def)
  define e where "e = exponent x"
  have ax: "\<bar>x\<bar> = of_int \<bar>m\<bar> * pow2 k"
    by (simp add: x_def abs_mult)
  have ek: "e - 52 \<le> k"
  proof (rule ccontr)
    assume "\<not> e - 52 \<le> k"
    then have lt: "k + 53 \<le> e" by simp
    then have "e \<noteq> - 1022" using assms(2) by simp
    then have "pow2 e \<le> \<bar>x\<bar>"
      using exponent_lower [OF x0] by (simp add: e_def)
    moreover have "pow2 (k + 53) \<le> pow2 e" using lt by (rule pow2_mono)
    ultimately have "pow2 (k + 53) \<le> \<bar>x\<bar>" by linarith
    then have "pow2 53 * pow2 k \<le> of_int \<bar>m\<bar> * pow2 k"
      by (simp add: ax pow2_add mult.commute)
    then have "pow2 53 \<le> (of_int \<bar>m\<bar> :: real)"
      using pow2_pos [of k] by (simp only: mult_le_cancel_right_pos)
    then have "(2::real) ^ 53 \<le> of_int \<bar>m\<bar>" by (simp add: pow2_def)
    then have "(2::int) ^ 53 \<le> \<bar>m\<bar>"
      by (metis of_int_le_iff of_int_numeral of_int_power)
    then show False using assms(1) by simp
  qed
  define d where "d = nat (k - (e - 52))"
  have kd: "k = (e - 52) + int d" using ek by (simp add: d_def)
  have "x / ulp x = of_int m * pow2 k / pow2 (e - 52)"
    by (simp add: x_def ulp_def e_def)
  also have "\<dots> = of_int m * pow2 (int d)"
    by (subst kd) (simp add: pow2_add)
  also have "\<dots> = of_int (m * 2 ^ d)"
    by (simp add: pow2_nat)
  finally have "x / ulp x = of_int (m * 2 ^ d)" .
  from fl_of_grid [OF x0 this] show ?thesis by (simp add: x_def)
qed

lemma fl_pow2: "- 1074 \<le> k \<Longrightarrow> fl (pow2 k) = pow2 k"
  using fl_representable [of 1 k] by simp

lemma fl_int: "\<bar>m\<bar> < 2 ^ 53 \<Longrightarrow> fl (of_int m) = of_int m"
  using fl_representable [of m 0] by (simp add: pow2_def)

lemma fl_nonneg: "0 \<le> x \<Longrightarrow> 0 \<le> fl x"
proof (cases "x = 0")
  case False
  assume "0 \<le> x"
  then have "0 \<le> x / ulp x"
    by simp
  then have "round_half_even 0 \<le> round_half_even (x / ulp x)"
    by (rule round_half_even_mono)
  then have "0 \<le> (of_int (round_half_even (x / ulp x)) :: real)" by simp
  then have "0 \<le> of_int (round_half_even (x / ulp x)) * ulp x"
    by simp
  then show ?thesis using False by (simp add: fl_def)
qed simp

lemma exponent_mono: "x \<noteq> 0 \<Longrightarrow> \<bar>x\<bar> \<le> \<bar>y\<bar> \<Longrightarrow> exponent x \<le> exponent y"
proof -
  assume x: "x \<noteq> 0" and xy: "\<bar>x\<bar> \<le> \<bar>y\<bar>"
  have "log 2 \<bar>x\<bar> \<le> log 2 \<bar>y\<bar>" using x xy by simp
  then have "\<lfloor>log 2 \<bar>x\<bar>\<rfloor> \<le> \<lfloor>log 2 \<bar>y\<bar>\<rfloor>" by (rule floor_mono)
  then show ?thesis by (simp add: exponent_def)
qed

lemma pow2_53: "pow2 53 = of_int mant"
  by (simp add: pow2_def mant_def)

lemma ulp_scale: "ulp x * of_int mant = pow2 (exponent x + 1)"
proof -
  have "exponent x + 1 = (exponent x - 52) + 53" by simp
  then have "pow2 (exponent x + 1) = pow2 (exponent x - 52) * pow2 53"
    by (simp only: pow2_add)
  then show ?thesis by (simp only: ulp_def pow2_53)
qed

lemma round_bounds:
  assumes "x \<noteq> 0"
  shows "\<bar>round_half_even (x / ulp x)\<bar> \<le> mant"
proof -
  have "\<bar>x\<bar> < ulp x * of_int mant"
    using exponent_upper [OF assms] by (simp only: ulp_scale)
  then have "\<bar>x\<bar> / ulp x < of_int mant"
    using ulp_pos [of x] by (simp only: pos_divide_less_eq mult.commute)
  then have a: "\<bar>x / ulp x\<bar> < of_int mant"
    using ulp_pos [of x] by (simp only: abs_divide abs_of_pos)
  have "x / ulp x \<le> of_int mant" "of_int (- mant) \<le> x / ulp x"
    using a by linarith+
  then have "round_half_even (x / ulp x) \<le> round_half_even (of_int mant)"
    "round_half_even (of_int (- mant)) \<le> round_half_even (x / ulp x)"
    by (simp_all only: round_half_even_mono)
  then show ?thesis
    by (simp only: round_half_even_int abs_le_iff) simp
qed

lemma fl_upper: "x \<noteq> 0 \<Longrightarrow> \<bar>fl x\<bar> \<le> pow2 (exponent x + 1)"
proof -
  assume x: "x \<noteq> 0"
  define n where "n = round_half_even (x / ulp x)"
  have "fl x = of_int n * ulp x" using x by (simp add: fl_def n_def)
  then have "\<bar>fl x\<bar> = of_int \<bar>n\<bar> * ulp x"
    using ulp_pos [of x] by (simp only: abs_mult abs_of_pos of_int_abs)
  also have "\<dots> \<le> of_int mant * ulp x"
  proof (rule mult_right_mono)
    show "(of_int \<bar>n\<bar> :: real) \<le> of_int mant"
      using round_bounds [OF x] by (simp only: n_def of_int_le_iff)
    show "0 \<le> ulp x" by simp
  qed
  also have "\<dots> = pow2 (exponent x + 1)"
    by (simp only: ulp_scale [symmetric] mult.commute)
  finally show ?thesis .
qed

lemma fl_lower:
  assumes "0 < x" "pow2 (exponent x) \<le> x"
  shows "pow2 (exponent x) \<le> fl x"
proof -
  have x0: "x \<noteq> 0" using assms(1) by simp
  have k: "- 1074 \<le> exponent x" using exponent_ge [of x] by linarith
  have "fl (pow2 (exponent x)) \<le> fl x"
  proof -
    have e: "exponent (pow2 (exponent x)) = exponent x"
    proof (rule exponent_normal)
      show "pow2 (exponent x) \<noteq> 0" by simp
      show "pow2 (exponent x) \<le> \<bar>pow2 (exponent x)\<bar>" by simp
      show "\<bar>pow2 (exponent x)\<bar> < pow2 (exponent x + 1)" by (simp add: pow2_less)
      show "- 1022 \<le> exponent x" by simp
    qed
    then have "ulp (pow2 (exponent x)) = ulp x" by (simp add: ulp_def)
    then show ?thesis
      using grid_mono [of "ulp x" "pow2 (exponent x)" x] assms(2) x0 ulp_pos [of x]
      by (simp add: fl_def)
  qed
  then show ?thesis using fl_pow2 [OF k] by simp
qed

lemma fl_mono_pos:
  assumes "0 < x" "x \<le> y"
  shows "fl x \<le> fl y"
proof -
  have x0: "x \<noteq> 0" and y0: "y \<noteq> 0" and ypos: "0 < y" using assms by simp_all
  have le: "exponent x \<le> exponent y"
    using assms by (intro exponent_mono) simp_all
  show ?thesis
  proof (cases "exponent x = exponent y")
    case True
    then have "ulp x = ulp y" by (simp add: ulp_def)
    then show ?thesis
      using grid_mono [of "ulp y" x y] assms x0 y0 by (simp add: fl_def)
  next
    case False
    then have lt: "exponent x + 1 \<le> exponent y" using le by simp
    then have "exponent y \<noteq> - 1022"
      using exponent_ge [of x] by linarith
    then have "pow2 (exponent y) \<le> y"
      using exponent_lower [OF y0] ypos by simp
    then have "pow2 (exponent y) \<le> fl y"
      using fl_lower [OF ypos] by simp
    moreover have "fl x \<le> pow2 (exponent x + 1)"
      using fl_upper [OF x0] by simp
    moreover have "pow2 (exponent x + 1) \<le> pow2 (exponent y)"
      using lt by (rule pow2_mono)
    ultimately show ?thesis by linarith
  qed
qed

lemma fl_mono: "x \<le> y \<Longrightarrow> fl x \<le> fl y"
proof -
  assume xy: "x \<le> y"
  consider "0 < x" | "x \<le> 0" "0 \<le> y" | "y < 0" by linarith
  then show ?thesis
  proof cases
    case 1
    then show ?thesis using xy by (rule fl_mono_pos)
  next
    case 2
    have "fl x \<le> 0" using fl_nonneg [of "- x"] 2(1) by (simp add: fl_uminus)
    moreover have "0 \<le> fl y" using 2(2) by (rule fl_nonneg)
    ultimately show ?thesis by simp
  next
    case 3
    then have "0 < - y" "- y \<le> - x" using xy by simp_all
    then have "fl (- y) \<le> fl (- x)" by (rule fl_mono_pos)
    then show ?thesis by (simp add: fl_uminus)
  qed
qed

lemma fl_idem [simp]: "fl (fl x) = fl x"
proof (cases "x = 0")
  case False
  define n where "n = round_half_even (x / ulp x)"
  have f: "fl x = of_int n * pow2 (exponent x - 52)"
    using False by (simp add: fl_def n_def ulp_def)
  have b: "\<bar>n\<bar> \<le> mant" using round_bounds [OF False] by (simp add: n_def)
  have k: "- 1074 \<le> exponent x - 52" using exponent_ge [of x] by linarith
  have k1: "- 1074 \<le> exponent x + 1" using exponent_ge [of x] by linarith
  show ?thesis
  proof (cases "\<bar>n\<bar> < mant")
    case True
    then have "\<bar>n\<bar> < 2 ^ 53" by (simp add: mant_def)
    from fl_representable [OF this k] show ?thesis by (simp only: f)
  next
    case False
    then have "\<bar>n\<bar> = mant" using b by simp
    then consider "n = mant" | "n = - mant" by linarith
    then show ?thesis
    proof cases
      case 1
      have "fl x = pow2 (exponent x + 1)"
        using ulp_scale [of x] by (simp only: f 1 ulp_def mult.commute)
      then show ?thesis using fl_pow2 [OF k1] by simp
    next
      case 2
      have "fl x = - (of_int mant * pow2 (exponent x - 52))"
        by (simp only: f 2 of_int_minus mult_minus_left)
      then have "fl x = - pow2 (exponent x + 1)"
        using ulp_scale [of x] by (simp only: ulp_def mult.commute)
      then show ?thesis
        using fl_pow2 [OF k1] by (simp add: fl_uminus)
    qed
  qed
qed simp

lemma fl_error_ulp: "\<bar>fl x - x\<bar> \<le> ulp x / 2"
proof (cases "x = 0")
  case False
  have "fl x - x = (of_int (round_half_even (x / ulp x)) - x / ulp x) * ulp x"
    using False by (simp add: fl_def left_diff_distrib)
  then have "\<bar>fl x - x\<bar> = \<bar>of_int (round_half_even (x / ulp x)) - x / ulp x\<bar> * ulp x"
    by (simp add: abs_mult)
  also have "\<dots> \<le> (1 / 2) * ulp x"
    by (intro mult_right_mono round_half_even_error) simp
  finally show ?thesis by simp
qed simp

lemma fl_error:
  "\<bar>fl x - x\<bar> \<le> pow2 (- 53) * \<bar>x\<bar> + pow2 (- 1075)"
proof (cases "x = 0")
  case False
  show ?thesis
  proof (cases "pow2 (exponent x) \<le> \<bar>x\<bar>")
    case True
    have "ulp x = pow2 (exponent x) * pow2 (- 52)"
      by (simp add: ulp_def flip: pow2_add)
    also have "\<dots> \<le> \<bar>x\<bar> * pow2 (- 52)"
      using True by (intro mult_right_mono) simp_all
    finally have "ulp x / 2 \<le> \<bar>x\<bar> * pow2 (- 52) / 2" by simp
    also have "\<dots> = pow2 (- 53) * \<bar>x\<bar>" by (simp add: pow2_def)
    finally show ?thesis
      using fl_error_ulp [of x] pow2_pos [of "- 1075"] by linarith
  next
    case c: False
    then have "exponent x = - 1022" using exponent_lower [OF False] by simp
    then have "ulp x / 2 = pow2 (- 1075)" by (simp add: ulp_def pow2_def)
    then show ?thesis
      using fl_error_ulp [of x] by (smt (verit) pow2_pos mult_nonneg_nonneg abs_ge_zero less_imp_le)
  qed
qed simp

section \<open>Running the example\<close>

lemmas run_simps = on_ok_def py_or_def py_join_def safe_join_def nl_def resume_signal_text_def
  job_signal_text_def format_job_description_def job_role_text_def project_text_def
  format_resume_def sorted_reverse_def py_slice_to_def stage1_entry_def
  bi_encoder_resume_filtering_def llm_as_a_judge_def py_eq_def candidate_data_by_name_def
  combine_def score_and_rank_def py_float_add_def py_float_mul_def

lemmas example_simps = example_repr_def example_bi_encoder_def example_cross_encoder_def
  example_judgment_def example_client_def example_job_def named_resume_def example_pool_def
  example_ranking_def

lemma fl_dyadic:
  assumes "\<bar>m\<bar> < 2 ^ 53" "n \<le> 1074"
  shows "fl (of_int m / 2 ^ n) = of_int m / 2 ^ n"
proof -
  have "pow2 (- int n) = 1 / 2 ^ n"
    by (simp add: pow2_def)
  then have "of_int m / 2 ^ n = of_int m * pow2 (- int n)" by simp
  moreover have "fl (of_int m * pow2 (- int n)) = of_int m * pow2 (- int n)"
    using assms by (intro fl_representable) simp_all
  ultimately show ?thesis by simp
qed

lemma fl_values:
  "fl 1 = 1" "fl 2 = 2" "fl 5 = 5" "fl 6 = 6" "fl 8 = 8" "fl 10 = 10"
  "fl (1 / 2) = 1 / 2" "fl (5 / 4) = 5 / 4" "fl (29 / 4) = 29 / 4" "fl (- 8) = - 8"
  "fl (5 / 2) = 5 / 2" "fl (15 / 2) = 15 / 2"
  using fl_int [of 1] fl_int [of 2] fl_int [of 5] fl_int [of 6] fl_int [of 8] fl_int [of 10]
    fl_dyadic [of 1 1] fl_dyadic [of 5 2] fl_dyadic [of 29 2] fl_int [of "- 8"]
    fl_dyadic [of 5 1] fl_dyadic [of 15 1]
  by simp_all

lemma double_max_ge: "pow2 1023 \<le> double_max"
proof -
  have "pow2 1023 = 2 ^ 52 * pow2 971"
    using pow2_add [of 52 971] by (simp add: pow2_nat [of 52, simplified])
  also have "\<dots> \<le> (2 ^ 53 - 1) * pow2 971"
    by (intro mult_right_mono) simp_all
  finally show ?thesis by (simp add: double_max_def)
qed

lemma double_max_lt: "double_max < pow2 1024"
proof -
  have "pow2 1024 = 2 ^ 53 * pow2 971"
    using pow2_add [of 53 971] by (simp add: pow2_nat [of 53, simplified])
  moreover have "(2 ^ 53 - 1) * pow2 971 < 2 ^ 53 * pow2 971"
    by (intro mult_strict_right_mono) simp_all
  ultimately show ?thesis by (simp add: double_max_def)
qed

lemma one_le_double_max: "1 \<le> double_max"
proof -
  have "pow2 0 \<le> pow2 1023" by (rule pow2_mono) simp
  then show ?thesis using double_max_ge by (simp add: pow2_def)
qed

lemma math_exp_zero: "math_exp 0 = Inr 1"
  using one_le_double_max by (simp add: math_exp_def fl_values)

lemma sigmoid_example: "sigmoid_score 0 = Inr 5"
  by (simp add: sigmoid_score_def math_exp_zero py_float_add_def py_float_div_def
      py_float_mul_def fl_values)


lemma stage2_example:
  "score_and_rank example_repr example_client example_ranking example_pool example_job
     example_cross_encoder 3 (3/4) (1/4) = Inr example_final"
  by (simp add: run_simps example_simps example_final_def sigmoid_example fl_values)


section \<open>Facts about Stage 1\<close>

lemma stage1_entry_name:
  "stage1_entry repr bi_encoder_model job_des_text c = Inr e \<Longrightarrow>
   candidate_name e = safe_get_nested c [''contact_info'', ''name''] (JStr ''Unknown Candidate'')"
  by (auto simp: stage1_entry_def on_ok_Inr_iff)

lemma map_err_names:
  assumes "map_err (stage1_entry repr bi_encoder_model job_des_text) pool = Inr results"
  shows "map candidate_name results =
         map (\<lambda>c. safe_get_nested c [''contact_info'', ''name''] (JStr ''Unknown Candidate'')) pool"
proof -
  have "list_all2 (\<lambda>c e. stage1_entry repr bi_encoder_model job_des_text c = Inr e) pool results"
    using assms by (rule map_err_Inr)
  then show ?thesis
    by (induction rule: list_all2_induct) (simp_all add: stage1_entry_name)
qed

lemma stage1_unfold:
  assumes "bi_encoder_resume_filtering repr job pool bi_encoder_model = Inr ranking"
  obtains job_des_text results where
    "format_job_description repr job = Inr job_des_text"
    "map_err (stage1_entry repr bi_encoder_model job_des_text) pool = Inr results"
    "ranking = sorted_reverse rank results"
  using assms by (auto simp: bi_encoder_resume_filtering_def on_ok_Inr_iff)

lemma stage1_returns_iff:
  "(\<exists>ranking. bi_encoder_resume_filtering repr job pool bi_encoder_model = Inr ranking) \<longleftrightarrow>
   (\<exists>job_des_text. format_job_description repr job = Inr job_des_text \<and>
      (\<forall>c \<in> set pool. \<exists>e. stage1_entry repr bi_encoder_model job_des_text c = Inr e))"
proof
  assume "\<exists>ranking. bi_encoder_resume_filtering repr job pool bi_encoder_model = Inr ranking"
  then obtain ranking where r: "bi_encoder_resume_filtering repr job pool bi_encoder_model = Inr ranking" ..
  from r obtain job_des_text results where
    j: "format_job_description repr job = Inr job_des_text" and
    m: "map_err (stage1_entry repr bi_encoder_model job_des_text) pool = Inr results"
    by (rule stage1_unfold)
  have "list_all2 (\<lambda>c e. stage1_entry repr bi_encoder_model job_des_text c = Inr e) pool results"
    using m by (rule map_err_Inr)
  then have "\<forall>c \<in> set pool. \<exists>e. stage1_entry repr bi_encoder_model job_des_text c = Inr e"
    by (induction rule: list_all2_induct) auto
  with j show "\<exists>job_des_text. format_job_description repr job = Inr job_des_text \<and>
      (\<forall>c \<in> set pool. \<exists>e. stage1_entry repr bi_encoder_model job_des_text c = Inr e)"
    by blast
next
  assume "\<exists>job_des_text. format_job_description repr job = Inr job_des_text \<and>
      (\<forall>c \<in> set pool. \<exists>e. stage1_entry repr bi_encoder_model job_des_text c = Inr e)"
  then obtain job_des_text where
    j: "format_job_description repr job = Inr job_des_text" and
    a: "\<forall>c \<in> set pool. \<exists>e. stage1_entry repr bi_encoder_model job_des_text c = Inr e"
    by blast
  from a obtain results where "map_err (stage1_entry repr bi_encoder_model job_des_text) pool = Inr results"
    using map_err_total by blast
  with j show "\<exists>ranking. bi_encoder_resume_filtering repr job pool bi_encoder_model = Inr ranking"
    by (simp add: bi_encoder_resume_filtering_def)
qed

section \<open>Facts about Stage 2\<close>

lemma py_eq_iff: "py_eq a b \<longleftrightarrow> (\<exists>k. py_hash a = Inr k \<and> py_hash b = Inr k)"
  by (auto simp: py_eq_def split: sum.splits)

lemma py_eq_resolve: "py_eq a b \<Longrightarrow> resolve d a = resolve d b"
  by (auto simp: py_eq_iff resolve_def)

lemma resolve_hashable: "resolve d n = Some c \<Longrightarrow> py_eq n n"
  by (auto simp: py_eq_iff resolve_def split: sum.splits)

lemma score_candidates_sound:
  "score_candidates repr client cross_encoder_model job job_text d names = Inr rest \<Longrightarrow>
   (\<forall>n \<in> set names. \<exists>k. py_hash n = Inr k) \<and>
   (\<forall>e \<in> set (fst rest). \<exists>c. resolve d (fst e) = Some c \<and> snd e = llm_as_a_judge client job c) \<and>
   (\<forall>e \<in> set (snd rest). \<exists>c text raw. resolve d (fst e) = Some c \<and>
       format_resume repr c = Inr text \<and> cross_encoder_model job_text text = Inr raw \<and>
       sigmoid_score raw = Inr (snd e)) \<and>
   map fst (fst rest) = filter (\<lambda>n. resolve d n \<noteq> None) names \<and>
   map fst (snd rest) = filter (\<lambda>n. resolve d n \<noteq> None) names"
proof (induction names arbitrary: rest)
  case Nil
  then show ?case by auto
next
  case (Cons name names)
  from Cons.prems obtain k where k: "py_hash name = Inr k"
    by (auto simp: on_ok_Inr_iff)
  show ?case
  proof (cases "d k")
    case None
    then have "score_candidates repr client cross_encoder_model job job_text d names = Inr rest"
      using Cons.prems k by simp
    from Cons.IH [OF this] show ?thesis
      using k None by (auto simp: resolve_def)
  next
    case (Some c)
    from Cons.prems k Some obtain resume_text raw score rest' where
      t: "format_resume repr c = Inr resume_text" and
      r: "cross_encoder_model job_text resume_text = Inr raw" and
      sg: "sigmoid_score raw = Inr score" and
      rec: "score_candidates repr client cross_encoder_model job job_text d names = Inr rest'" and
      rest: "rest = ((name, llm_as_a_judge client job c) # fst rest', (name, score) # snd rest')"
      by (auto simp: on_ok_Inr_iff Let_def)
    have res: "resolve d name = Some c"
      using k Some by (simp add: resolve_def)
    from Cons.IH [OF rec] show ?thesis
      using k res t r sg rest by auto
  qed
qed

lemma find_unresolved:
  assumes "\<forall>e \<in> set entries. \<exists>c. resolve d (fst e) = Some c \<and> P e c"
    and "resolve d name = None"
  shows "find (\<lambda>r. py_eq (fst r) name) entries = None"
proof -
  have "\<not> py_eq (fst e) name" if "e \<in> set entries" for e
  proof
    assume "py_eq (fst e) name"
    then have "resolve d (fst e) = resolve d name" by (rule py_eq_resolve)
    with assms that show False by fastforce
  qed
  then show ?thesis unfolding find_None_iff by blast
qed

lemma find_resolved:
  assumes "\<forall>e \<in> set entries. \<exists>c. resolve d (fst e) = Some c \<and> P e c"
    and "map fst entries = filter (\<lambda>n. resolve d n \<noteq> None) names"
    and "name \<in> set names"
    and "resolve d name = Some c"
  shows "\<exists>e. find (\<lambda>r. py_eq (fst r) name) entries = Some e \<and> py_eq (fst e) name \<and> P e c"
proof -
  have "name \<in> set (map fst entries)"
    using assms(2,3,4) by simp
  then obtain e0 where e0: "e0 \<in> set entries" "fst e0 = name"
    by auto
  have "py_eq (fst e0) name"
    using e0 assms(4) resolve_hashable by simp
  with e0 have "find (\<lambda>r. py_eq (fst r) name) entries \<noteq> None"
    unfolding find_None_iff by blast
  then obtain e where f: "find (\<lambda>r. py_eq (fst r) name) entries = Some e"
    by auto
  then have e: "e \<in> set entries" "py_eq (fst e) name"
    by (auto simp: find_Some_iff)
  then have "resolve d (fst e) = Some c"
    using assms(4) py_eq_resolve by simp
  with assms(1) e have "P e c" by fastforce
  with f e show ?thesis by blast
qed

lemma stage2_unfold:
  assumes "score_and_rank repr client ranking resumes job cross_encoder_model top_n
             llm_weight cross_encoder_weight = Inr final"
  obtains d job_text rest where
    "candidate_data_by_name resumes = Inr d"
    "format_job_description repr job = Inr job_text"
    "score_candidates repr client cross_encoder_model job job_text d
       (map candidate_name (py_slice_to ranking top_n)) = Inr rest"
    "final = sorted_reverse combined_score
       (map (combine (fst rest) (snd rest) llm_weight cross_encoder_weight)
          (map candidate_name (py_slice_to ranking top_n)))"
  using assms by (auto simp: score_and_rank_def on_ok_Inr_iff Let_def)

lemma combine_name [simp]: "candidate_name (combine l c lw cw name) = name"
  by (simp add: combine_def Let_def)


lemma set_sorted_reverse [simp]: "set (sorted_reverse key xs) = set xs"
  by (metis mset_sorted_reverse set_mset_mset)

lemma length_sorted_reverse [simp]: "length (sorted_reverse key xs) = length xs"
  by (metis mset_sorted_reverse size_mset)

lemma combine_unresolved:
  assumes "score_candidates repr client cross_encoder_model job job_text d names = Inr rest"
    and "resolve d name = None"
  shows "combine (fst rest) (snd rest) lw cw name =
     \<lparr>candidate_name = name, llm_score = 0, cross_encoder_score = 0, combined_score = 0,
      llm_analysis = None\<rparr>"
proof -
  note s = score_candidates_sound [OF assms(1)]
  have "find (\<lambda>r. py_eq (fst r) name) (fst rest) = None"
    using s assms(2)
    by (intro find_unresolved [where P = "\<lambda>e c. snd e = llm_as_a_judge client job c"]) auto
  moreover have "find (\<lambda>r. py_eq (fst r) name) (snd rest) = None"
    using s assms(2)
    by (intro find_unresolved [where P = "\<lambda>e c. \<exists>text raw. format_resume repr c = Inr text \<and>
          cross_encoder_model job_text text = Inr raw \<and> sigmoid_score raw = Inr (snd e)"]) auto
  ultimately show ?thesis
    by (simp add: combine_def py_float_add_def py_float_mul_def)
qed

lemma combine_resolved:
  assumes "score_candidates repr client cross_encoder_model job job_text d names = Inr rest"
    and "name \<in> set names"
    and "resolve d name = Some c"
  shows "\<exists>n resume_text raw score.
     format_resume repr c = Inr resume_text \<and>
     cross_encoder_model job_text resume_text = Inr raw \<and>
     sigmoid_score raw = Inr score \<and>
     py_eq n name \<and>
     combine (fst rest) (snd rest) lw cw name =
       \<lparr>candidate_name = name,
        llm_score = (case llm_as_a_judge client job c of Some j \<Rightarrow> final_score j | None \<Rightarrow> 0),
        cross_encoder_score = score,
        combined_score =
          py_float_add
            (py_float_mul
               (case llm_as_a_judge client job c of Some j \<Rightarrow> final_score j | None \<Rightarrow> 0) lw)
            (py_float_mul score cw),
        llm_analysis = Some (n, llm_as_a_judge client job c)\<rparr>"
proof -
  note s = score_candidates_sound [OF assms(1)]
  have "\<exists>e. find (\<lambda>r. py_eq (fst r) name) (fst rest) = Some e \<and> py_eq (fst e) name \<and>
          snd e = llm_as_a_judge client job c"
    using s assms(2,3)
    by (intro find_resolved [where P = "\<lambda>e c. snd e = llm_as_a_judge client job c" and names = names]) auto
  then obtain e where e: "find (\<lambda>r. py_eq (fst r) name) (fst rest) = Some e"
    "py_eq (fst e) name" "snd e = llm_as_a_judge client job c"
    by blast
  have "\<exists>e. find (\<lambda>r. py_eq (fst r) name) (snd rest) = Some e \<and> py_eq (fst e) name \<and>
          (\<exists>text raw. format_resume repr c = Inr text \<and>
             cross_encoder_model job_text text = Inr raw \<and> sigmoid_score raw = Inr (snd e))"
    using s assms(2,3)
    by (intro find_resolved [where P = "\<lambda>e c. \<exists>text raw. format_resume repr c = Inr text \<and>
          cross_encoder_model job_text text = Inr raw \<and> sigmoid_score raw = Inr (snd e)" and names = names]) auto
  then obtain x resume_text raw where x: "find (\<lambda>r. py_eq (fst r) name) (snd rest) = Some x"
    "format_resume repr c = Inr resume_text" "cross_encoder_model job_text resume_text = Inr raw"
    "sigmoid_score raw = Inr (snd x)"
    by blast
  have "combine (fst rest) (snd rest) lw cw name =
       \<lparr>candidate_name = name,
        llm_score = (case llm_as_a_judge client job c of Some j \<Rightarrow> final_score j | None \<Rightarrow> 0),
        cross_encoder_score = snd x,
        combined_score =
          py_float_add
            (py_float_mul
               (case llm_as_a_judge client job c of Some j \<Rightarrow> final_score j | None \<Rightarrow> 0) lw)
            (py_float_mul (snd x) cw),
        llm_analysis = Some (fst e, llm_as_a_judge client job c)\<rparr>"
    using e x by (cases e; cases x) (auto simp: combine_def Let_def split: option.splits)
  with e x show ?thesis by blast
qed

section \<open>Facts about the logistic rescaling\<close>

lemma pow2_exp: "pow2 k = exp (of_int k * ln 2)"
  by (simp add: pow2_powr powr_def)

lemma exp_le_pow2: "x \<le> of_int k * ln 2 \<Longrightarrow> exp x \<le> pow2 k"
  by (simp add: pow2_exp)

lemma pow2_le_exp: "of_int k * ln 2 \<le> x \<Longrightarrow> pow2 k \<le> exp x"
  by (simp add: pow2_exp)

lemma math_exp_Inr:
  assumes "math_exp x = Inr e"
  shows "e = fl (exp x)" "0 \<le> e" "e \<le> double_max"
proof -
  show e: "e = fl (exp x)"
    using assms by (auto simp: math_exp_def split: if_splits)
  show "e \<le> double_max"
    using assms by (auto simp: math_exp_def split: if_splits)
  show "0 \<le> e"
    unfolding e by (rule fl_nonneg) simp
qed

lemma sigmoid_unfold:
  assumes "sigmoid_score raw = Inr s"
  shows "math_exp (- raw) = Inr (fl (exp (- raw)))"
    and "s = fl (fl (1 / fl (1 + fl (exp (- raw)))) * 10)"
proof -
  from assms obtain e where e: "math_exp (- raw) = Inr e"
    by (auto simp: sigmoid_score_def on_ok_Inr_iff)
  have ee: "e = fl (exp (- raw))" using e by (rule math_exp_Inr)
  show "math_exp (- raw) = Inr (fl (exp (- raw)))" using e ee by simp
  show "s = fl (fl (1 / fl (1 + fl (exp (- raw)))) * 10)"
    using assms e ee
    by (auto simp: sigmoid_score_def py_float_div_def py_float_add_def py_float_mul_def
        split: if_splits)
qed

lemma denominator_ge_one: "1 \<le> fl (1 + fl (exp x))"
proof -
  have "0 \<le> fl (exp x)" by (rule fl_nonneg) simp
  then have "fl 1 \<le> fl (1 + fl (exp x))" by (intro fl_mono) simp
  then show ?thesis by (simp add: fl_values)
qed

lemma sigmoid_returns_iff:
  "(\<exists>s. sigmoid_score raw = Inr s) \<longleftrightarrow> fl (exp (- raw)) \<le> double_max"
proof -
  have "fl (1 + fl (exp (- raw))) \<noteq> 0"
    using denominator_ge_one [of "- raw"] by simp
  then show ?thesis
    by (auto simp: sigmoid_score_def math_exp_def py_float_div_def py_float_add_def)
qed

lemma sigmoid_raises:
  "sigmoid_score raw = Inl err \<Longrightarrow> err = OverflowError \<and> double_max < fl (exp (- raw))"
proof -
  assume a: "sigmoid_score raw = Inl err"
  have "fl (1 + fl (exp (- raw))) \<noteq> 0"
    using denominator_ge_one [of "- raw"] by simp
  then show ?thesis
    using a
    by (auto simp: sigmoid_score_def math_exp_def py_float_div_def py_float_add_def on_ok_def
        split: if_splits)
qed

lemma sigmoid_range:
  assumes "sigmoid_score raw = Inr s"
  shows "0 < s" "s \<le> 10"
proof -
  define e where "e = fl (exp (- raw))"
  define a where "a = fl (1 + e)"
  define t where "t = fl (1 / a)"
  have s: "s = fl (t * 10)"
    using sigmoid_unfold(2) [OF assms] by (simp add: t_def a_def e_def)
  have "math_exp (- raw) = Inr e"
    using sigmoid_unfold(1) [OF assms] by (simp add: e_def)
  then have e0: "0 \<le> e" and emax: "e \<le> double_max"
    by (rule math_exp_Inr)+
  have a1: "1 \<le> a"
    using denominator_ge_one [of "- raw"] by (simp add: a_def e_def)
  have "1 + e \<le> pow2 1024"
  proof -
    have "pow2 1024 = 2 ^ 53 * pow2 971"
      using pow2_add [of 53 971] by (simp add: pow2_nat [of 53, simplified])
    moreover have "(1::real) \<le> pow2 971"
      using pow2_mono [of 0 971] by (simp add: pow2_def)
    ultimately have "1 + double_max \<le> pow2 1024"
      by (simp add: double_max_def left_diff_distrib)
    then show ?thesis using emax by simp
  qed
  then have "a \<le> fl (pow2 1024)" unfolding a_def by (rule fl_mono)
  then have amax: "a \<le> pow2 1024" by (simp add: fl_pow2)
  have apos: "0 < a" using a1 by simp
  have "1 / pow2 1024 \<le> 1 / a"
    using amax apos by (simp add: frac_le)
  moreover have "1 / pow2 1024 = pow2 (- 1024)"
    using pow2_diff [of 0 1024] by (simp add: pow2_def)
  ultimately have "pow2 (- 1024) \<le> 1 / a" by simp
  then have "fl (pow2 (- 1024)) \<le> t" unfolding t_def by (rule fl_mono)
  then have tmin: "pow2 (- 1024) \<le> t" by (simp add: fl_pow2)
  have "1 / a \<le> 1" using a1 by simp
  then have "t \<le> fl 1" unfolding t_def by (rule fl_mono)
  then have tmax: "t \<le> 1" by (simp add: fl_values)
  have "t * 10 \<le> 10" using tmax by simp
  then have "s \<le> fl 10" unfolding s by (rule fl_mono)
  then show "s \<le> 10" by (simp add: fl_values)
  have "pow2 (- 1024) \<le> t * 10"
    using tmin pow2_pos [of "- 1024"] by linarith
  then have "fl (pow2 (- 1024)) \<le> s" unfolding s by (rule fl_mono)
  then have "pow2 (- 1024) \<le> s" by (simp add: fl_pow2)
  then show "0 < s" using pow2_pos [of "- 1024"] by linarith
qed

lemma ln2_upper: "ln (2::real) \<le> 7 / 10"
proof -
  have "(2::real) \<le> (1 + 7 / 40 + (7 / 40)\<^sup>2 / 2) ^ 4"
    by (simp add: power2_eq_square power4_eq_xxxx)
  also have "\<dots> \<le> exp (7 / 40) ^ 4"
    by (intro power_mono exp_lower_Taylor_quadratic) simp_all
  also have "\<dots> = exp (of_nat 4 * (7 / 40))"
    by (simp only: exp_of_nat_mult)
  also have "\<dots> = exp (7 / 10)" by simp
  finally have "ln 2 \<le> ln (exp (7 / 10 :: real))"
    by (intro ln_mono) simp_all
  then show ?thesis by simp
qed

lemma ln2_lower: "67 / 100 \<le> ln (2::real)"
proof -
  have "exp (67 / 100 :: real) = exp (of_nat 16 * (67 / 1600))" by simp
  also have "\<dots> = exp (67 / 1600) ^ 16"
    by (simp only: exp_of_nat_mult)
  also have "\<dots> \<le> (1 + 67 / 1600 + (67 / 1600)\<^sup>2) ^ 16"
    by (intro power_mono exp_bound) simp_all
  also have "\<dots> \<le> 2"
    by (simp add: power2_eq_square power_divide)
  finally have "exp (67 / 100 :: real) \<le> 2" .
  then show ?thesis
    using ln_ge_iff [of 2 "67 / 100"] by (simp del: divide_le_eq_numeral1)
qed

lemmas ln2_bounds = ln2_lower ln2_upper

lemma sigmoid_returns:
  assumes "- 685 \<le> raw"
  shows "\<exists>s. sigmoid_score raw = Inr s"
proof -
  have "- raw \<le> of_int 1023 * ln 2"
    using assms ln2_bounds(1) by simp
  then have "exp (- raw) \<le> pow2 1023" by (rule exp_le_pow2)
  then have "fl (exp (- raw)) \<le> fl (pow2 1023)" by (rule fl_mono)
  then have "fl (exp (- raw)) \<le> double_max"
    using double_max_ge by (simp add: fl_pow2)
  then show ?thesis by (simp add: sigmoid_returns_iff)
qed

lemma sigmoid_overflow:
  assumes "raw \<le> - 717"
  shows "sigmoid_score raw = Inl OverflowError"
proof -
  have "of_int 1024 * ln 2 \<le> - raw"
    using assms ln2_bounds(2) by simp
  then have "pow2 1024 \<le> exp (- raw)" by (rule pow2_le_exp)
  then have "fl (pow2 1024) \<le> fl (exp (- raw))" by (rule fl_mono)
  then have "double_max < fl (exp (- raw))"
    using double_max_lt by (simp add: fl_pow2)
  then show ?thesis
    by (simp add: sigmoid_score_def math_exp_def)
qed

lemma fl_one_plus_tiny: "fl (1 + pow2 (- 54)) = 1"
proof -
  have "fl (1 + pow2 (- 54)) =
      of_int (round_half_even ((1 + pow2 (- 54)) / pow2 (0 - 52))) * pow2 (0 - 52)"
    by (rule fl_normal) (simp_all add: pow2_def)
  also have "(1 + pow2 (- 54)) / pow2 (0 - 52) = 2 ^ 52 + 1 / 4"
    by (simp add: pow2_def)
  also have "round_half_even (2 ^ 52 + 1 / 4) = 2 ^ 52"
    by (simp add: round_half_even_def)
  finally show ?thesis by (simp add: pow2_def)
qed

lemma sigmoid_saturates:
  assumes "38 \<le> raw"
  shows "sigmoid_score raw = Inr 10"
proof -
  have "- raw \<le> of_int (- 54) * ln 2"
    using assms ln2_bounds(2) by simp
  then have "exp (- raw) \<le> pow2 (- 54)" by (rule exp_le_pow2)
  then have "fl (exp (- raw)) \<le> fl (pow2 (- 54))" by (rule fl_mono)
  then have e: "fl (exp (- raw)) \<le> pow2 (- 54)" by (simp add: fl_pow2)
  have "pow2 (- 54) \<le> pow2 1023" by (rule pow2_mono) simp
  then have ok: "fl (exp (- raw)) \<le> double_max"
    using e double_max_ge by linarith
  have "fl (1 + fl (exp (- raw))) \<le> fl (1 + pow2 (- 54))"
    using e by (intro fl_mono) simp
  then have "fl (1 + fl (exp (- raw))) = 1"
    using denominator_ge_one [of "- raw"] by (simp add: fl_one_plus_tiny)
  then show ?thesis
    using ok
    by (simp add: sigmoid_score_def math_exp_def py_float_add_def py_float_div_def
        py_float_mul_def fl_values)
qed

lemma sigmoid_accuracy:
  assumes "sigmoid_score raw = Inr s"
  shows "\<bar>s - 10 / (1 + exp (- raw))\<bar> \<le> pow2 (- 46)"
proof -
  define E where "E = exp (- raw)"
  define e where "e = fl E"
  define a where "a = fl (1 + e)"
  define t where "t = fl (1 / a)"
  define u where "u = pow2 (- 53)"
  define h where "h = pow2 (- 1075)"
  have s: "s = fl (t * 10)"
    using sigmoid_unfold(2) [OF assms] by (simp add: t_def a_def e_def E_def)
  have Epos: "0 < E" by (simp add: E_def)
  have upos: "0 < u" and hpos: "0 < h" by (simp_all add: u_def h_def)
  have u1: "u \<le> 1"
    using pow2_mono [of "- 53" 0] by (simp add: u_def pow2_def)
  have h3: "3 * h \<le> u"
  proof -
    have "4 * h = pow2 (- 1073)"
      using pow2_add [of 2 "- 1075"] by (simp add: h_def pow2_nat [of 2, simplified])
    moreover have "pow2 (- 1073) \<le> pow2 (- 53)" by (rule pow2_mono) simp
    ultimately show ?thesis using hpos by (simp add: u_def)
  qed
  have e0: "0 \<le> e" unfolding e_def by (rule fl_nonneg) (use Epos in simp)
  have a1: "1 \<le> a"
    using denominator_ge_one [of "- raw"] by (simp add: a_def e_def E_def)
  have inv1: "1 / a \<le> 1" "0 \<le> 1 / a" using a1 by simp_all
  have t0: "0 \<le> t" unfolding t_def by (rule fl_nonneg) (use inv1 in simp)
  have "t \<le> fl 1" unfolding t_def by (rule fl_mono) (use inv1 in simp)
  then have t1: "t \<le> 1" by (simp add: fl_values)
  have he: "\<bar>e - E\<bar> \<le> u * E + h"
    using fl_error [of E] Epos by (simp add: e_def u_def h_def)
  have ha: "\<bar>a - (1 + e)\<bar> \<le> u * (1 + e) + h"
    using fl_error [of "1 + e"] e0 by (simp add: a_def u_def h_def)
  have ht: "\<bar>t - 1 / a\<bar> \<le> u * (1 / a) + h"
    using fl_error [of "1 / a"] inv1 by (simp add: t_def u_def h_def)
  have hs: "\<bar>s - t * 10\<bar> \<le> u * (t * 10) + h"
    using fl_error [of "t * 10"] t0 by (simp add: s u_def h_def)
  have P0: "0 \<le> u * E" using upos Epos by simp
  have RP: "u * (u * E) \<le> u * E"
    using mult_right_mono [OF u1 P0] by simp
  have Th: "u * h \<le> h"
    using mult_right_mono [OF u1, of h] hpos by simp
  have "e \<le> E + u * E + h" using he by linarith
  then have "u * e \<le> u * (E + u * E + h)"
    using upos by (intro mult_left_mono) simp_all
  then have Q: "u * e \<le> u * E + u * (u * E) + u * h"
    by (simp add: distrib_left)
  have "\<bar>a - (1 + E)\<bar> \<le> \<bar>a - (1 + e)\<bar> + \<bar>e - E\<bar>" by linarith
  also have "\<dots> \<le> u * (1 + e) + h + (u * E + h)" using ha he by linarith
  also have "\<dots> = u + u * e + u * E + 2 * h" by (simp add: distrib_left)
  also have "\<dots> \<le> 4 * u + 4 * (u * E)" using Q RP Th h3 P0 upos by linarith
  finally have D: "\<bar>a - (1 + E)\<bar> \<le> 4 * u * (1 + E)" by (simp add: distrib_left)
  have apos: "0 < a" using a1 by simp
  have Esum: "0 < 1 + E" using Epos by simp
  have "1 / a - 1 / (1 + E) = ((1 + E) - a) / (a * (1 + E))"
    using apos Esum by (simp add: field_simps)
  then have "\<bar>1 / a - 1 / (1 + E)\<bar> = \<bar>a - (1 + E)\<bar> / (a * (1 + E))"
    using apos Esum by (simp add: abs_divide abs_mult abs_minus_commute)
  also have "\<dots> \<le> (4 * u * (1 + E)) / (a * (1 + E))"
    using D apos Esum by (intro divide_right_mono) simp_all
  also have "\<dots> = 4 * u / a" using Esum by simp
  also have "\<dots> \<le> 4 * u"
    using a1 upos by (simp add: field_simps)
  finally have C: "\<bar>1 / a - 1 / (1 + E)\<bar> \<le> 4 * u" .
  have ua: "u * (1 / a) \<le> u"
    using mult_left_mono [OF inv1(1), of u] upos by simp
  have Dt: "\<bar>t - 1 / (1 + E)\<bar> \<le> 6 * u"
    using ht C ua h3 hpos by linarith
  have ut: "u * (t * 10) \<le> 10 * u"
    using mult_left_mono [OF t1, of u] upos by simp
  define g where "g = 1 / (1 + E)"
  have Dg: "\<bar>t - g\<bar> \<le> 6 * u" using Dt by (simp add: g_def)
  have "10 / (1 + E) = 10 * g" by (simp add: g_def)
  then have "\<bar>s - 10 / (1 + E)\<bar> = \<bar>s - 10 * g\<bar>" by simp
  also have "\<dots> = \<bar>(s - t * 10) + 10 * (t - g)\<bar>" by (simp add: algebra_simps)
  also have "\<dots> \<le> \<bar>s - t * 10\<bar> + \<bar>10 * (t - g)\<bar>" by (rule abs_triangle_ineq)
  also have "\<dots> = \<bar>s - t * 10\<bar> + 10 * \<bar>t - g\<bar>" by (simp only: abs_mult abs_numeral)
  also have "\<dots> \<le> 71 * u"
  proof -
    have aux: "\<And>A B C :: real. A \<le> C + h \<Longrightarrow> C \<le> 10 * u \<Longrightarrow> B \<le> 6 * u
      \<Longrightarrow> A + 10 * B \<le> 71 * u"
      using h3 upos by linarith
    show ?thesis by (rule aux [OF hs ut Dg])
  qed
  also have "\<dots> \<le> 128 * u" using upos by simp
  also have "\<dots> = pow2 (- 46)"
    using pow2_add [of 7 "- 53"] by (simp add: u_def pow2_nat [of 7, simplified])
  finally show ?thesis by (simp add: E_def)
qed

section \<open>Completeness, ordering and gating of the stages\<close>





lemma dict_of_resumes_lookup:
  "dict_of_resumes d0 cs = Inr d \<Longrightarrow> d k = Some c \<Longrightarrow>
   (c \<in> set cs \<and> py_hash (safe_get_nested c [''contact_info'', ''name''] JNull) = Inr k) \<or>
   d0 k = Some c"
proof (induction cs arbitrary: d0)
  case Nil
  then show ?case by simp
next
  case (Cons x xs)
  from Cons.prems(1) obtain j where
    j: "py_hash (safe_get_nested x [''contact_info'', ''name''] JNull) = Inr j" and
    rec: "dict_of_resumes (d0(j \<mapsto> x)) xs = Inr d"
    by (auto simp: on_ok_Inr_iff)
  from Cons.IH [OF rec Cons.prems(2)] show ?case
    using j by (auto split: if_splits)
qed








text \<open>
  Claim C4, amended. The identities of the Stage 2 output are those of the slice
  \<^verbatim>\<open>bi_encoder_ranking[:top_n]\<close>, each as often as there: for \<open>top_n \<ge> 0\<close> these are the
  first \<open>top_n\<close> entries of the ranked pool, all of them when the pool has no more than
  \<open>top_n\<close> entries, and none for \<open>top_n = 0\<close>, where the output is empty. For \<open>top_n < 0\<close>
  the slice is the ranked pool without its last \<open>- top_n\<close> entries.
\<close>

theorem stage2_gating:
  assumes "score_and_rank repr client bi_encoder_ranking resumes job cross_encoder_model top_n
             llm_weight cross_encoder_weight = Inr final"
  shows "(0 \<le> top_n \<longrightarrow>
            mset (map candidate_name final) =
              mset (map candidate_name (take (nat top_n) bi_encoder_ranking)) \<and>
            candidate_name ` set final \<subseteq> candidate_name ` set (take (nat top_n) bi_encoder_ranking)) \<and>
         (int (length bi_encoder_ranking) \<le> top_n \<longrightarrow>
            mset (map candidate_name final) = mset (map candidate_name bi_encoder_ranking)) \<and>
         (top_n = 0 \<longrightarrow> final = []) \<and>
         (top_n < 0 \<longrightarrow>
            mset (map candidate_name final) =
              mset (map candidate_name
                (take (length bi_encoder_ranking - nat (- top_n)) bi_encoder_ranking)))"
proof -
  from assms obtain rest where
    f: "final = sorted_reverse combined_score
       (map (combine (fst rest) (snd rest) llm_weight cross_encoder_weight)
          (map candidate_name (py_slice_to bi_encoder_ranking top_n)))"
    by (rule stage2_unfold)
  have "mset final = mset (map (combine (fst rest) (snd rest) llm_weight cross_encoder_weight)
          (map candidate_name (py_slice_to bi_encoder_ranking top_n)))"
    using f by (simp add: mset_sorted_reverse)
  then have "mset (map candidate_name final) =
      mset (map candidate_name (map (combine (fst rest) (snd rest) llm_weight cross_encoder_weight)
          (map candidate_name (py_slice_to bi_encoder_ranking top_n))))"
    by (metis mset_map)
  then have ms: "mset (map candidate_name final) =
      mset (map candidate_name (py_slice_to bi_encoder_ranking top_n))"
    by (simp add: comp_def)
  have sub: "candidate_name ` set final \<subseteq> candidate_name ` set (py_slice_to bi_encoder_ranking top_n)"
    using ms by (metis set_map set_mset_mset subset_refl)
  have z: "final = []" if "top_n = 0"
    using f that by (simp add: py_slice_to_def sorted_reverse_def)
  show ?thesis
    using ms sub z by (auto simp: py_slice_to_def)
qed

text \<open>The example run with \<open>top_n = 2\<close>: the output holds Bob and Ada, the first two of the ranking.\<close>

theorem stage2_gating_witness:
  "score_and_rank example_repr example_client example_ranking example_pool example_job
     example_cross_encoder 2 (3/4) (1/4) =
     Inr example_final_two \<and>
   (0::int) \<le> 2 \<and>
   candidate_name `
     set example_final_two
     \<subseteq> candidate_name ` set (take (nat 2) example_ranking)"
proof -
  have run: "score_and_rank example_repr example_client example_ranking example_pool example_job
     example_cross_encoder 2 (3/4) (1/4) =
     Inr example_final_two"
    by (simp add: run_simps example_simps example_final_two_def sigmoid_example fl_values)
  have pos: "(0::int) \<le> 2" by simp
  from stage2_gating [OF run] pos run show ?thesis
    by blast
qed

text \<open>
  Claim C4 as stated fails for a negative \<open>top_n\<close>: with \<open>top_n = -1\<close> the slice drops the
  last entry of the ranking and the output is not empty.
\<close>

theorem negative_top_n_counterexample:
  "(- 1 :: int) \<le> 0 \<and>
   score_and_rank example_repr example_client example_ranking example_pool example_job
     example_cross_encoder (- 1) (3/4) (1/4) =
     Inr example_final_two \<and>
   example_final_two \<noteq> []"
  by (simp add: run_simps example_simps example_final_two_def sigmoid_example fl_values)

section \<open>The combined score\<close>

lemma fl_weights:
  "fl (7 / 10) = 3152519739159347 / 2 ^ 52"
  "fl (3 / 10) = 5404319552844595 / 2 ^ 54"
  "fl (1 / 10) = 3602879701896397 / 2 ^ 55"
  "fl (74 / 10) = 8331659310635418 / 2 ^ 50"
  using fl_normal [of "7 / 10" "- 1"] fl_normal [of "3 / 10" "- 2"] fl_normal [of "1 / 10" "- 4"]
    fl_normal [of "74 / 10" 2]
  by (simp_all add: pow2_def round_half_even_def)






section \<open>The score bounds\<close>

lemma sigmoid_below_ten:
  assumes "sigmoid_score raw = Inr s" "raw \<le> 34"
  shows "s \<le> 10 - pow2 (- 49)"
proof -
  define e where "e = fl (exp (- raw))"
  define a where "a = fl (1 + e)"
  define t where "t = fl (1 / a)"
  define x where "x = pow2 (- 51)"
  have s: "s = fl (t * 10)"
    using sigmoid_unfold(2) [OF assms(1)] by (simp add: t_def a_def e_def)
  have x: "x = 1 / 2 ^ 51" by (simp add: x_def pow2_def)
  have "of_int (- 51) * ln 2 \<le> - raw"
    using assms(2) ln2_bounds(1) by simp
  then have "pow2 (- 51) \<le> exp (- raw)" by (rule pow2_le_exp)
  then have "fl (pow2 (- 51)) \<le> e" unfolding e_def by (rule fl_mono)
  then have e: "x \<le> e" by (simp add: fl_pow2 x_def)
  have r1: "fl (1 + x) = 1 + x"
    using fl_representable [of "2 ^ 51 + 1" "- 51"] by (simp add: x pow2_def add_divide_distrib)
  have "fl (1 + x) \<le> a" unfolding a_def using e by (intro fl_mono) simp
  then have a: "1 + x \<le> a" by (simp add: r1)
  have xpos: "0 < x" "x \<le> 1" by (simp_all add: x)
  have "1 \<le> (1 + x) * (1 - x / 2)"
  proof -
    have "(1 + x) * (1 - x / 2) = 1 + x * (1 - x) / 2" by (simp add: field_simps)
    moreover have "0 \<le> x * (1 - x) / 2" using xpos by simp
    ultimately show ?thesis by simp
  qed
  then have "1 / (1 + x) \<le> 1 - x / 2"
    using xpos by (simp add: divide_le_eq mult.commute)
  moreover have "1 / a \<le> 1 / (1 + x)"
    using a xpos by (simp add: frac_le)
  ultimately have "1 / a \<le> 1 - x / 2" by linarith
  then have "t \<le> fl (1 - x / 2)" unfolding t_def by (rule fl_mono)
  moreover have "fl (1 - x / 2) = 1 - x / 2"
    using fl_representable [of "2 ^ 52 - 1" "- 52"] by (simp add: x pow2_def diff_divide_distrib)
  ultimately have t: "t \<le> 1 - x / 2" by simp
  have "t * 10 \<le> 10 - 5 * x" using t by simp
  also have "\<dots> \<le> 10 - 4 * x" using xpos by simp
  finally have "s \<le> fl (10 - 4 * x)" unfolding s by (rule fl_mono)
  moreover have "fl (10 - 4 * x) = 10 - 4 * x"
    using fl_representable [of "10 * 2 ^ 49 - 1" "- 49"] by (simp add: x pow2_def diff_divide_distrib)
  moreover have "4 * x = pow2 (- 49)" by (simp add: x pow2_def)
  ultimately show ?thesis by simp
qed

lemma judged_score_bounds:
  assumes "\<forall>j c jd. client j c = Inr jd \<longrightarrow> 0 \<le> final_score jd \<and> final_score jd \<le> 10"
  shows "0 \<le> (case llm_as_a_judge client job c of Some j \<Rightarrow> final_score j | None \<Rightarrow> 0) \<and>
         (case llm_as_a_judge client job c of Some j \<Rightarrow> final_score j | None \<Rightarrow> 0) \<le> 10"
  using assms by (auto simp: llm_as_a_judge_def split: sum.splits)

lemma weighted_sum_bounds:
  assumes "0 \<le> a" "a \<le> 10" "0 \<le> b" "b \<le> 10" "0 \<le> lw" "0 \<le> cw"
  shows "0 \<le> py_float_add (py_float_mul a lw) (py_float_mul b cw)"
    and "py_float_add (py_float_mul a lw) (py_float_mul b cw) \<le>
           py_float_add (py_float_mul 10 lw) (py_float_mul 10 cw)"
proof -
  have "0 \<le> a * lw" "0 \<le> b * cw" using assms by simp_all
  then have p: "0 \<le> fl (a * lw)" "0 \<le> fl (b * cw)" by (simp_all add: fl_nonneg)
  then show "0 \<le> py_float_add (py_float_mul a lw) (py_float_mul b cw)"
    by (simp add: py_float_add_def py_float_mul_def fl_nonneg)
  have "a * lw \<le> 10 * lw" "b * cw \<le> 10 * cw"
    using assms by (simp_all add: mult_right_mono)
  then have "fl (a * lw) \<le> fl (10 * lw)" "fl (b * cw) \<le> fl (10 * cw)"
    by (simp_all add: fl_mono)
  then have "fl (a * lw) + fl (b * cw) \<le> fl (10 * lw) + fl (10 * cw)" by simp
  then show "py_float_add (py_float_mul a lw) (py_float_mul b cw) \<le>
           py_float_add (py_float_mul 10 lw) (py_float_mul 10 cw)"
    unfolding py_float_add_def py_float_mul_def by (rule fl_mono)
qed

lemma fl_above:
  assumes "0 \<le> x"
  shows "fl x \<le> x * (1 + pow2 (- 53)) + pow2 (- 1075)"
proof -
  have "fl x - x \<le> \<bar>fl x - x\<bar>" by simp
  also have "\<dots> \<le> pow2 (- 53) * \<bar>x\<bar> + pow2 (- 1075)" by (rule fl_error)
  finally show ?thesis using assms by (simp add: algebra_simps)
qed

lemma rounded_bound:
  assumes "0 \<le> lw" "0 \<le> cw"
  shows "py_float_add (py_float_mul 10 lw) (py_float_mul 10 cw) \<le>
           10 * (lw + cw) * (1 + pow2 (- 51)) + pow2 (- 1073)"
proof -
  define u where "u = pow2 (- 53)"
  define h where "h = pow2 (- 1075)"
  define w where "w = 10 * (lw + cw)"
  have u: "0 < u" "u \<le> 1" "2 * u \<le> 1" by (simp_all add: u_def pow2_def)
  have h: "0 < h" by (simp add: h_def)
  have w: "0 \<le> w" using assms by (simp add: w_def)
  have A: "fl (10 * lw) \<le> 10 * lw * (1 + u) + h"
    unfolding u_def h_def using assms by (intro fl_above) simp
  have B: "fl (10 * cw) \<le> 10 * cw * (1 + u) + h"
    unfolding u_def h_def using assms by (intro fl_above) simp
  have nn: "0 \<le> fl (10 * lw) + fl (10 * cw)"
    using assms by (intro add_nonneg_nonneg fl_nonneg) simp_all
  have AB: "fl (10 * lw) + fl (10 * cw) \<le> w * (1 + u) + 2 * h"
    using A B by (simp add: w_def algebra_simps)
  have "fl (fl (10 * lw) + fl (10 * cw)) \<le> (fl (10 * lw) + fl (10 * cw)) * (1 + u) + h"
    unfolding u_def h_def using nn by (rule fl_above)
  also have "\<dots> \<le> (w * (1 + u) + 2 * h) * (1 + u) + h"
    using AB u by (simp add: mult_right_mono)
  also have "\<dots> = w * ((1 + u) * (1 + u)) + (2 * h * (1 + u) + h)"
    by (simp add: algebra_simps)
  also have "\<dots> \<le> w * (1 + 4 * u) + 4 * h"
  proof -
    have "u * u \<le> u" using u by (simp add: mult_left_le)
    then have "(1 + u) * (1 + u) \<le> 1 + 4 * u"
      using u by (simp add: algebra_simps)
    then have "w * ((1 + u) * (1 + u)) \<le> w * (1 + 4 * u)"
      using w by (rule mult_left_mono)
    moreover have "h * (2 * u) \<le> h * 1" using u(3) h by (intro mult_left_mono) simp_all
    then have "2 * h * (1 + u) + h \<le> 4 * h" by (simp add: algebra_simps)
    ultimately show ?thesis by linarith
  qed
  also have "\<dots> \<le> w * (1 + pow2 (- 51)) + pow2 (- 1073)"
  proof -
    have "4 * u = pow2 (- 51)"
      using pow2_add [of 2 "- 53"] by (simp add: u_def pow2_nat [of 2, simplified])
    moreover have "4 * h = pow2 (- 1073)"
      using pow2_add [of 2 "- 1075"] by (simp add: h_def pow2_nat [of 2, simplified])
    ultimately show ?thesis by simp
  qed
  finally show ?thesis
    by (simp add: py_float_add_def py_float_mul_def w_def)
qed

lemma stage2_entry_cases:
  assumes "score_and_rank repr client bi_encoder_ranking resumes job cross_encoder_model top_n
             llm_weight cross_encoder_weight = Inr final"
    and "x \<in> set final"
  shows "x = \<lparr>candidate_name = candidate_name x, llm_score = 0, cross_encoder_score = 0,
               combined_score = 0, llm_analysis = None\<rparr> \<or>
         (\<exists>c n job_text resume_text raw score.
            record_for resumes (candidate_name x) = Some c \<and>
            format_job_description repr job = Inr job_text \<and>
            format_resume repr c = Inr resume_text \<and>
            cross_encoder_model job_text resume_text = Inr raw \<and>
            sigmoid_score raw = Inr score \<and>
            x = \<lparr>candidate_name = candidate_name x,
                  llm_score = (case llm_as_a_judge client job c of
                                 Some j \<Rightarrow> final_score j | None \<Rightarrow> 0),
                  cross_encoder_score = score,
                  combined_score =
                    py_float_add
                      (py_float_mul
                         (case llm_as_a_judge client job c of Some j \<Rightarrow> final_score j | None \<Rightarrow> 0)
                         llm_weight)
                      (py_float_mul score cross_encoder_weight),
                  llm_analysis = Some (n, llm_as_a_judge client job c)\<rparr>)"
proof -
  from assms(1) obtain d job_text rest where
    d: "candidate_data_by_name resumes = Inr d" and
    jt: "format_job_description repr job = Inr job_text" and
    sc: "score_candidates repr client cross_encoder_model job job_text d
       (map candidate_name (py_slice_to bi_encoder_ranking top_n)) = Inr rest" and
    f: "final = sorted_reverse combined_score
       (map (combine (fst rest) (snd rest) llm_weight cross_encoder_weight)
          (map candidate_name (py_slice_to bi_encoder_ranking top_n)))"
    by (rule stage2_unfold)
  from f assms(2) obtain name where
    name: "name \<in> set (map candidate_name (py_slice_to bi_encoder_ranking top_n))" and
    x: "x = combine (fst rest) (snd rest) llm_weight cross_encoder_weight name"
    by auto
  have nx: "candidate_name x = name"
    using x by simp
  show ?thesis
  proof (cases "resolve d name")
    case None
    from combine_unresolved [OF sc None] x nx show ?thesis
      by simp
  next
    case (Some c)
    have "record_for resumes name = Some c"
      using d Some by (simp add: record_for_def)
    with combine_resolved [OF sc name Some, of llm_weight cross_encoder_weight] x nx jt
    show ?thesis
      by auto
  qed
qed

lemma example_client_bounds:
  "\<forall>j c jd. example_client j c = Inr jd \<longrightarrow> 0 \<le> final_score jd \<and> final_score jd \<le> 10"
  by (simp add: example_client_def example_judgment_def)

lemma stage2_example_negative:
  "score_and_rank example_repr example_client example_ranking example_pool example_job
     example_cross_encoder 3 (- 1) 0 = Inr example_final_negative"
  by (simp add: run_simps example_simps example_final_negative_def sigmoid_example fl_values)

lemma saturated_products:
  "fl (10 * fl (7 / 10)) = 7" "fl (10 * fl (1 / 10)) = 1"
  unfolding fl_weights
  using fl_normal [of "10 * (3152519739159347 / 2 ^ 52)" 2]
    fl_normal [of "10 * (3602879701896397 / 2 ^ 55)" 0]
  by (simp_all add: pow2_def round_half_even_def)

lemma stage2_example_saturated:
  "score_and_rank example_repr top_client example_ranking example_pool example_job
     saturated_cross_encoder 3 (fl (7 / 10)) (fl (1 / 10)) = Inr example_final_saturated"
  using sigmoid_saturates [of 38]
  by (simp add: run_simps example_simps example_final_saturated_def saturated_cross_encoder_def
      top_client_def top_judgment_def saturated_products fl_values)

lemma stage2_example_overflow:
  "score_and_rank example_repr example_client example_ranking example_pool example_job
     overflowing_cross_encoder 3 (3/4) (1/4) = Inl OverflowError"
  using sigmoid_overflow [of "- 717"]
  by (simp add: run_simps example_simps overflowing_cross_encoder_def)

text \<open>
  Claim C5, amended. The rescaled pairwise score is \<^verbatim>\<open>(1 / (1 + math.exp(-raw))) * 10.0\<close> on
  doubles. When it is computed it lies in \<open>(0, 10]\<close>, within \<open>pow2 (- 46)\<close> of the logistic
  value \<open>10 / (1 + exp (- raw))\<close>; it is strictly below 10 for a raw score up to 34 and is
  exactly 10 for a raw score from 38 on. It is computed for every raw score from -685 on,
  and for a raw score up to -717 \<^verbatim>\<open>math.exp\<close> raises \<^verbatim>\<open>OverflowError\<close>. An entry of the
  Stage 2 output has the rescaled score of the raw score that the cross-encoder returned
  for the job text and the text of the record matching its identity, or the score 0 when
  no record matched. When both weights are non-negative and the judge only gives scores in
  \<open>[0, 10]\<close>, every combined score lies between 0 and the combined score of two scores of
  10, which exceeds \<open>10 * (llm_weight + cross_encoder_weight)\<close> by rounding only.
\<close>

theorem score_bounds:
  "(sigmoid_score raw = Inr s \<longrightarrow>
      0 < s \<and> s \<le> 10 \<and> \<bar>s - 10 / (1 + exp (- raw))\<bar> \<le> pow2 (- 46) \<and>
      (raw \<le> 34 \<longrightarrow> s < 10)) \<and>
   (- 685 \<le> raw \<longrightarrow> (\<exists>s. sigmoid_score raw = Inr s)) \<and>
   (38 \<le> raw \<longrightarrow> sigmoid_score raw = Inr 10) \<and>
   (raw \<le> - 717 \<longrightarrow> sigmoid_score raw = Inl OverflowError) \<and>
   (score_and_rank repr client bi_encoder_ranking resumes job cross_encoder_model top_n
        llm_weight cross_encoder_weight = Inr final \<longrightarrow>
      (\<forall>e \<in> set final.
         ((\<exists>c job_text resume_text r.
             record_for resumes (candidate_name e) = Some c \<and>
             format_job_description repr job = Inr job_text \<and>
             format_resume repr c = Inr resume_text \<and>
             cross_encoder_model job_text resume_text = Inr r \<and>
             sigmoid_score r = Inr (cross_encoder_score e)) \<or>
          (cross_encoder_score e = 0 \<and> llm_analysis e = None)) \<and>
         (0 \<le> llm_weight \<and> 0 \<le> cross_encoder_weight \<and>
          (\<forall>j c jd. client j c = Inr jd \<longrightarrow> 0 \<le> final_score jd \<and> final_score jd \<le> 10) \<longrightarrow>
            0 \<le> combined_score e \<and>
            combined_score e \<le>
              py_float_add (py_float_mul 10 llm_weight) (py_float_mul 10 cross_encoder_weight) \<and>
            combined_score e \<le>
              10 * (llm_weight + cross_encoder_weight) * (1 + pow2 (- 51)) + pow2 (- 1073))))"
proof (intro conjI impI ballI)
  assume sg: "sigmoid_score raw = Inr s"
  show "0 < s" "s \<le> 10"
    using sigmoid_range [OF sg] by simp_all
  show "\<bar>s - 10 / (1 + exp (- raw))\<bar> \<le> pow2 (- 46)"
    using sg by (rule sigmoid_accuracy)
  assume "raw \<le> 34"
  with sg have "s \<le> 10 - pow2 (- 49)" by (rule sigmoid_below_ten)
  then show "s < 10" using pow2_pos [of "- 49"] by linarith
next
  assume "- 685 \<le> raw"
  then show "\<exists>s. sigmoid_score raw = Inr s" by (rule sigmoid_returns)
next
  assume "38 \<le> raw"
  then show "sigmoid_score raw = Inr 10" by (rule sigmoid_saturates)
next
  assume "raw \<le> - 717"
  then show "sigmoid_score raw = Inl OverflowError" by (rule sigmoid_overflow)
next
  fix e
  assume run: "score_and_rank repr client bi_encoder_ranking resumes job cross_encoder_model top_n
        llm_weight cross_encoder_weight = Inr final" and e: "e \<in> set final"
  note cases = stage2_entry_cases [OF run e]
  show "(\<exists>c job_text resume_text r.
             record_for resumes (candidate_name e) = Some c \<and>
             format_job_description repr job = Inr job_text \<and>
             format_resume repr c = Inr resume_text \<and>
             cross_encoder_model job_text resume_text = Inr r \<and>
             sigmoid_score r = Inr (cross_encoder_score e)) \<or>
          (cross_encoder_score e = 0 \<and> llm_analysis e = None)"
  proof (rule disjE [OF cases])
    assume "e = \<lparr>candidate_name = candidate_name e, llm_score = 0, cross_encoder_score = 0,
               combined_score = 0, llm_analysis = None\<rparr>"
    then have "cross_encoder_score e = 0 \<and> llm_analysis e = None"
      by (metis fusion_entry.select_convs(2,4))
    then show ?thesis ..
  next
    assume "\<exists>c n job_text resume_text raw score.
            record_for resumes (candidate_name e) = Some c \<and>
            format_job_description repr job = Inr job_text \<and>
            format_resume repr c = Inr resume_text \<and>
            cross_encoder_model job_text resume_text = Inr raw \<and>
            sigmoid_score raw = Inr score \<and>
            e = \<lparr>candidate_name = candidate_name e,
                  llm_score = (case llm_as_a_judge client job c of
                                 Some j \<Rightarrow> final_score j | None \<Rightarrow> 0),
                  cross_encoder_score = score,
                  combined_score =
                    py_float_add
                      (py_float_mul
                         (case llm_as_a_judge client job c of Some j \<Rightarrow> final_score j | None \<Rightarrow> 0)
                         llm_weight)
                      (py_float_mul score cross_encoder_weight),
                  llm_analysis = Some (n, llm_as_a_judge client job c)\<rparr>"
    then obtain c n job_text resume_text r score where
      r: "record_for resumes (candidate_name e) = Some c"
        "format_job_description repr job = Inr job_text"
        "format_resume repr c = Inr resume_text"
        "cross_encoder_model job_text resume_text = Inr r"
        "sigmoid_score r = Inr score" and
      ee: "e = \<lparr>candidate_name = candidate_name e,
                  llm_score = (case llm_as_a_judge client job c of
                                 Some j \<Rightarrow> final_score j | None \<Rightarrow> 0),
                  cross_encoder_score = score,
                  combined_score =
                    py_float_add
                      (py_float_mul
                         (case llm_as_a_judge client job c of Some j \<Rightarrow> final_score j | None \<Rightarrow> 0)
                         llm_weight)
                      (py_float_mul score cross_encoder_weight),
                  llm_analysis = Some (n, llm_as_a_judge client job c)\<rparr>"
      by blast
    have "cross_encoder_score e = score"
      using ee by (metis fusion_entry.select_convs(2))
    with r show ?thesis by blast
  qed
  assume w: "0 \<le> llm_weight \<and> 0 \<le> cross_encoder_weight \<and>
          (\<forall>j c jd. client j c = Inr jd \<longrightarrow> 0 \<le> final_score jd \<and> final_score jd \<le> 10)"
  have b: "0 \<le> combined_score e \<and>
      combined_score e \<le>
        py_float_add (py_float_mul 10 llm_weight) (py_float_mul 10 cross_encoder_weight)"
  proof (rule disjE [OF cases])
    assume "e = \<lparr>candidate_name = candidate_name e, llm_score = 0, cross_encoder_score = 0,
               combined_score = 0, llm_analysis = None\<rparr>"
    then have "combined_score e = 0"
      by (metis fusion_entry.select_convs(3))
    moreover have "0 \<le> py_float_add (py_float_mul 10 llm_weight) (py_float_mul 10 cross_encoder_weight)"
      using w by (intro weighted_sum_bounds(1)) simp_all
    ultimately show ?thesis by simp
  next
    assume "\<exists>c n job_text resume_text raw score.
            record_for resumes (candidate_name e) = Some c \<and>
            format_job_description repr job = Inr job_text \<and>
            format_resume repr c = Inr resume_text \<and>
            cross_encoder_model job_text resume_text = Inr raw \<and>
            sigmoid_score raw = Inr score \<and>
            e = \<lparr>candidate_name = candidate_name e,
                  llm_score = (case llm_as_a_judge client job c of
                                 Some j \<Rightarrow> final_score j | None \<Rightarrow> 0),
                  cross_encoder_score = score,
                  combined_score =
                    py_float_add
                      (py_float_mul
                         (case llm_as_a_judge client job c of Some j \<Rightarrow> final_score j | None \<Rightarrow> 0)
                         llm_weight)
                      (py_float_mul score cross_encoder_weight),
                  llm_analysis = Some (n, llm_as_a_judge client job c)\<rparr>"
    then obtain c r score where
      sg: "sigmoid_score r = Inr score" and
      cs: "combined_score e =
         py_float_add
           (py_float_mul
              (case llm_as_a_judge client job c of Some j \<Rightarrow> final_score j | None \<Rightarrow> 0)
              llm_weight)
           (py_float_mul score cross_encoder_weight)"
      by (metis fusion_entry.select_convs(3))
    have "0 \<le> score" "score \<le> 10"
      using sigmoid_range [OF sg] by simp_all
    then show ?thesis
      unfolding cs using judged_score_bounds [of client job c] w
      by (intro conjI weighted_sum_bounds) simp_all
  qed
  then show "0 \<le> combined_score e"
    "combined_score e \<le>
       py_float_add (py_float_mul 10 llm_weight) (py_float_mul 10 cross_encoder_weight)"
    by simp_all
  have "py_float_add (py_float_mul 10 llm_weight) (py_float_mul 10 cross_encoder_weight) \<le>
      10 * (llm_weight + cross_encoder_weight) * (1 + pow2 (- 51)) + pow2 (- 1073)"
    using w by (intro rounded_bound) simp_all
  with b show "combined_score e \<le>
      10 * (llm_weight + cross_encoder_weight) * (1 + pow2 (- 51)) + pow2 (- 1073)"
    by linarith
qed

text \<open>
  The example run with the weights 0.75 and 0.25: the raw score 0 rescales to 5, and Ada's
  combined score 7.25 is at most 10, the combined score of two scores of 10. The raw scores
  38 and -717 are beyond the two thresholds.
\<close>

theorem score_bounds_witness:
  "sigmoid_score 0 = Inr 5 \<and> (0::real) \<le> 34 \<and> (- 685 :: real) \<le> 0 \<and> (5::real) < 10 \<and>
   \<bar>5 - 10 / (1 + exp (- 0))\<bar> \<le> pow2 (- 46) \<and>
   sigmoid_score 38 = Inr 10 \<and>
   sigmoid_score (- 717) = Inl OverflowError \<and>
   score_and_rank example_repr example_client example_ranking example_pool example_job
     example_cross_encoder 3 (3/4) (1/4) = Inr example_final \<and>
   hd example_final \<in> set example_final \<and>
   (0::real) \<le> 3 / 4 \<and> (0::real) \<le> 1 / 4 \<and>
   0 \<le> combined_score (hd example_final) \<and>
   combined_score (hd example_final) \<le> py_float_add (py_float_mul 10 (3/4)) (py_float_mul 10 (1/4)) \<and>
   py_float_add (py_float_mul 10 (3/4)) (py_float_mul 10 (1/4)) = 10"
proof -
  have e: "hd example_final \<in> set example_final"
    by (simp add: example_final_def)
  have w: "(0::real) \<le> 3 / 4" "(0::real) \<le> 1 / 4"
    by simp_all
  have t: "py_float_add (py_float_mul 10 (3/4)) (py_float_mul 10 (1/4)) = 10"
    by (simp add: py_float_add_def py_float_mul_def fl_values)
  note ex = score_bounds [where raw = 0 and s = 5 and repr = example_repr and client = example_client
      and bi_encoder_ranking = example_ranking and resumes = example_pool and job = example_job
      and cross_encoder_model = example_cross_encoder and top_n = 3 and llm_weight = "3/4"
      and cross_encoder_weight = "1/4" and final = example_final]
  from ex sigmoid_example
  have a: "\<bar>5 - 10 / (1 + exp (- 0))\<bar> \<le> pow2 (- 46)" "(5::real) < 10"
    by simp_all
  from ex stage2_example e w example_client_bounds
  have b: "0 \<le> combined_score (hd example_final) \<and>
        combined_score (hd example_final) \<le>
          py_float_add (py_float_mul 10 (3/4)) (py_float_mul 10 (1/4))"
    by blast
  have c: "sigmoid_score 38 = Inr 10"
    using score_bounds [where raw = 38] by simp
  have d: "sigmoid_score (- 717) = Inl OverflowError"
    using score_bounds [where raw = "- 717"] by simp
  from a b c d sigmoid_example stage2_example e w t show ?thesis
    by simp
qed

text \<open>
  Claim C5 as stated fails in three ways. With a cross-encoder that returns the raw score
  38 and a judge that gives the score 10, under the weights 0.7 and 0.1, the rescaled
  pairwise score of every entry is exactly 10, not below it, and the combined score 8 is
  above \<open>10 * (0.7 + 0.1)\<close> for the two doubles. With a cross-encoder that returns -717,
  Stage 2 raises \<^verbatim>\<open>OverflowError\<close> and there is no rescaled score. With the weights -1 and
  0, Ada's combined score is -8, outside \<open>[0, 10 * (-1 + 0)]\<close>.
\<close>

theorem score_bounds_counterexample:
  "score_and_rank example_repr top_client example_ranking example_pool example_job
     saturated_cross_encoder 3 (fl (7 / 10)) (fl (1 / 10)) = Inr example_final_saturated \<and>
   hd example_final_saturated \<in> set example_final_saturated \<and>
   \<not> cross_encoder_score (hd example_final_saturated) < 10 \<and>
   \<not> combined_score (hd example_final_saturated) \<le> 10 * (fl (7 / 10) + fl (1 / 10)) \<and>
   score_and_rank example_repr example_client example_ranking example_pool example_job
     overflowing_cross_encoder 3 (3/4) (1/4) = Inl OverflowError \<and>
   score_and_rank example_repr example_client example_ranking example_pool example_job
     example_cross_encoder 3 (- 1) 0 = Inr example_final_negative \<and>
   example_final_negative ! 1 \<in> set example_final_negative \<and>
   \<not> (0 \<le> combined_score (example_final_negative ! 1) \<and>
      combined_score (example_final_negative ! 1) \<le> 10 * (- 1 + 0))"
proof -
  have "\<not> combined_score (hd example_final_saturated) \<le> 10 * (fl (7 / 10) + fl (1 / 10))"
    unfolding fl_weights by (simp add: example_final_saturated_def)
  moreover have "hd example_final_saturated \<in> set example_final_saturated"
    "\<not> cross_encoder_score (hd example_final_saturated) < 10"
    by (simp_all add: example_final_saturated_def)
  moreover have "example_final_negative ! 1 \<in> set example_final_negative"
    "\<not> (0 \<le> combined_score (example_final_negative ! 1) \<and>
      combined_score (example_final_negative ! 1) \<le> 10 * (- 1 + 0))"
    by (simp_all add: example_final_negative_def)
  ultimately show ?thesis
    using stage2_example_saturated stage2_example_overflow stage2_example_negative by blast
qed

section \<open>Failure of the judge\<close>

lemma score_candidates_any_client:
  "score_candidates repr client cross_encoder_model job job_text d names = Inr rest \<Longrightarrow>
   \<exists>rest'. score_candidates repr client' cross_encoder_model job job_text d names = Inr rest'"
proof (induction names arbitrary: rest)
  case Nil
  then show ?case by simp
next
  case (Cons name names)
  from Cons.prems obtain k where k: "py_hash name = Inr k"
    by (auto simp: on_ok_Inr_iff)
  show ?case
  proof (cases "d k")
    case None
    then have "score_candidates repr client cross_encoder_model job job_text d names = Inr rest"
      using Cons.prems k by simp
    from Cons.IH [OF this] show ?thesis
      using k None by simp
  next
    case (Some c)
    from Cons.prems k Some obtain resume_text raw score rest0 where
      t: "format_resume repr c = Inr resume_text" and
      r: "cross_encoder_model job_text resume_text = Inr raw" and
      sg: "sigmoid_score raw = Inr score" and
      rec: "score_candidates repr client cross_encoder_model job job_text d names = Inr rest0"
      by (auto simp: on_ok_Inr_iff Let_def)
    from Cons.IH [OF rec] obtain rest' where
      "score_candidates repr client' cross_encoder_model job job_text d names = Inr rest'"
      by blast
    then show ?thesis
      using k Some t r sg by (simp add: Let_def)
  qed
qed

lemma stage2_returns_any_client:
  assumes "score_and_rank repr client bi_encoder_ranking resumes job cross_encoder_model top_n
             llm_weight cross_encoder_weight = Inr final"
  shows "\<exists>final'. score_and_rank repr client' bi_encoder_ranking resumes job cross_encoder_model
           top_n llm_weight cross_encoder_weight = Inr final' \<and> length final' = length final"
proof -
  from assms obtain d job_text rest where
    d: "candidate_data_by_name resumes = Inr d" and
    j: "format_job_description repr job = Inr job_text" and
    sc: "score_candidates repr client cross_encoder_model job job_text d
       (map candidate_name (py_slice_to bi_encoder_ranking top_n)) = Inr rest" and
    f: "final = sorted_reverse combined_score
       (map (combine (fst rest) (snd rest) llm_weight cross_encoder_weight)
          (map candidate_name (py_slice_to bi_encoder_ranking top_n)))"
    by (rule stage2_unfold)
  from score_candidates_any_client [OF sc, of client'] obtain rest' where
    "score_candidates repr client' cross_encoder_model job job_text d
       (map candidate_name (py_slice_to bi_encoder_ranking top_n)) = Inr rest'"
    by blast
  then show ?thesis
    using d j f by (simp add: score_and_rank_def Let_def)
qed

text \<open>
  Claim C9. When the judge fails for a selected candidate, \<^verbatim>\<open>llm_as_a_judge\<close> returns the
  empty result, the candidate's entry is in the Stage 2 output with judgment score 0, and
  its combined score is the pairwise term alone, the product of the rescaled pairwise score
  and its weight as computed on doubles. The output has one entry per selected
  candidate, three for three candidates, and whether Stage 2 returns does not depend on
  the judge.
\<close>

theorem judge_failure_tolerated:
  assumes "score_and_rank repr client bi_encoder_ranking resumes job cross_encoder_model top_n
             llm_weight cross_encoder_weight = Inr final"
    and "e \<in> set (py_slice_to bi_encoder_ranking top_n)"
    and "record_for resumes (candidate_name e) = Some c"
    and "client job c = Inl err"
  shows "llm_as_a_judge client job c = None \<and>
         (\<exists>x \<in> set final.
            candidate_name x = candidate_name e \<and> llm_score x = 0 \<and>
            (\<exists>n. llm_analysis x = Some (n, None)) \<and>
            (\<exists>job_text resume_text raw.
               format_job_description repr job = Inr job_text \<and>
               format_resume repr c = Inr resume_text \<and>
               cross_encoder_model job_text resume_text = Inr raw \<and>
               sigmoid_score raw = Inr (cross_encoder_score x)) \<and>
            combined_score x = py_float_mul (cross_encoder_score x) cross_encoder_weight) \<and>
         length final = length (py_slice_to bi_encoder_ranking top_n) \<and>
         (length (py_slice_to bi_encoder_ranking top_n) = 3 \<longrightarrow> length final = 3) \<and>
         (\<forall>client'. \<exists>final'.
            score_and_rank repr client' bi_encoder_ranking resumes job cross_encoder_model top_n
              llm_weight cross_encoder_weight = Inr final' \<and> length final' = length final)"
proof -
  from assms(1) obtain d job_text rest where
    d: "candidate_data_by_name resumes = Inr d" and
    jt: "format_job_description repr job = Inr job_text" and
    sc: "score_candidates repr client cross_encoder_model job job_text d
       (map candidate_name (py_slice_to bi_encoder_ranking top_n)) = Inr rest" and
    f: "final = sorted_reverse combined_score
       (map (combine (fst rest) (snd rest) llm_weight cross_encoder_weight)
          (map candidate_name (py_slice_to bi_encoder_ranking top_n)))"
    by (rule stage2_unfold)
  have none: "llm_as_a_judge client job c = None"
    using assms(4) by (simp add: llm_as_a_judge_def)
  have res: "resolve d (candidate_name e) = Some c"
    using assms(3) d by (simp add: record_for_def)
  have name: "candidate_name e \<in> set (map candidate_name (py_slice_to bi_encoder_ranking top_n))"
    using assms(2) by simp
  let ?x = "combine (fst rest) (snd rest) llm_weight cross_encoder_weight (candidate_name e)"
  from combine_resolved [OF sc name res, of llm_weight cross_encoder_weight] none
  obtain n resume_text raw score where
    t: "format_resume repr c = Inr resume_text"
      "cross_encoder_model job_text resume_text = Inr raw"
      "sigmoid_score raw = Inr score" and
    x: "?x = \<lparr>candidate_name = candidate_name e, llm_score = 0,
               cross_encoder_score = score,
               combined_score = py_float_add (py_float_mul 0 llm_weight)
                 (py_float_mul score cross_encoder_weight),
               llm_analysis = Some (n, None)\<rparr>"
    by auto
  have pw: "py_float_add (py_float_mul 0 llm_weight) (py_float_mul score cross_encoder_weight) =
      py_float_mul score cross_encoder_weight"
    by (simp add: py_float_add_def py_float_mul_def)
  have "?x \<in> set final"
    using f assms(2) by auto
  moreover have "candidate_name ?x = candidate_name e" "llm_score ?x = 0"
    "llm_analysis ?x = Some (n, None)" "sigmoid_score raw = Inr (cross_encoder_score ?x)"
    "combined_score ?x = py_float_mul (cross_encoder_score ?x) cross_encoder_weight"
    using t(3) by (simp_all add: x pw)
  ultimately have entry: "\<exists>x \<in> set final.
            candidate_name x = candidate_name e \<and> llm_score x = 0 \<and>
            (\<exists>n. llm_analysis x = Some (n, None)) \<and>
            (\<exists>job_text resume_text raw.
               format_job_description repr job = Inr job_text \<and>
               format_resume repr c = Inr resume_text \<and>
               cross_encoder_model job_text resume_text = Inr raw \<and>
               sigmoid_score raw = Inr (cross_encoder_score x)) \<and>
            combined_score x = py_float_mul (cross_encoder_score x) cross_encoder_weight"
    using jt t(1,2) by blast
  have len: "length final = length (py_slice_to bi_encoder_ranking top_n)"
    using f by simp
  from none entry len stage2_returns_any_client [OF assms(1)] show ?thesis
    by simp
qed

lemma record_for_bob: "record_for example_pool (JStr ''Bob'') = Some (named_resume ''Bob'' ''a'')"
  by (simp add: record_for_def candidate_data_by_name_def resolve_def example_pool_def
      named_resume_def on_ok_def py_or_def)

text \<open>
  The example run: the judge fails on Bob, one of the three selected candidates; Stage 2
  returns three entries, and Bob's combined score is \<open>5 * 0.25\<close>.
\<close>

theorem judge_failure_tolerated_witness:
  "score_and_rank example_repr example_client example_ranking example_pool example_job
     example_cross_encoder 3 (3/4) (1/4) = Inr example_final \<and>
   \<lparr>candidate_name = JStr ''Bob'', rank = 1 / 2 ^ 98\<rparr> \<in> set (py_slice_to example_ranking 3) \<and>
   record_for example_pool (JStr ''Bob'') = Some (named_resume ''Bob'' ''a'') \<and>
   example_client example_job (named_resume ''Bob'' ''a'') = Inl CapabilityError \<and>
   length (py_slice_to example_ranking 3) = 3 \<and>
   length example_final = 3 \<and>
   (\<exists>x \<in> set example_final.
      candidate_name x = JStr ''Bob'' \<and> llm_score x = 0 \<and>
      combined_score x = py_float_mul (cross_encoder_score x) (1 / 4))"
proof -
  have e: "\<lparr>candidate_name = JStr ''Bob'', rank = 1 / 2 ^ 98\<rparr> \<in> set (py_slice_to example_ranking 3)"
    by (simp add: py_slice_to_def example_ranking_def)
  have r: "record_for example_pool (candidate_name \<lparr>candidate_name = JStr ''Bob'', rank = 1 / 2 ^ 98\<rparr>) =
      Some (named_resume ''Bob'' ''a'')"
    by (simp add: record_for_bob)
  have c: "example_client example_job (named_resume ''Bob'' ''a'') = Inl CapabilityError"
    by (simp add: example_client_def named_resume_def py_or_def)
  have l: "length (py_slice_to example_ranking 3) = 3"
    by (simp add: py_slice_to_def example_ranking_def)
  note t = judge_failure_tolerated [OF stage2_example e r c]
  from t l have "length example_final = 3"
    by blast
  moreover from t have "\<exists>x \<in> set example_final.
      candidate_name x = JStr ''Bob'' \<and> llm_score x = 0 \<and>
      combined_score x = py_float_mul (cross_encoder_score x) (1 / 4)"
    by auto
  ultimately show ?thesis
    using stage2_example e record_for_bob c l by blast
qed

section \<open>Candidates without a name\<close>

lemma nameless_default:
  "nameless c \<Longrightarrow> safe_get_nested c [''contact_info'', ''name''] dflt = dflt"
  by (auto simp: nameless_def py_or_def split: json.splits option.splits)

lemma stage1_names_mset:
  assumes "bi_encoder_resume_filtering repr job pool bi_encoder_model = Inr ranking"
  shows "mset (map candidate_name ranking) =
         mset (map (\<lambda>c. safe_get_nested c [''contact_info'', ''name''] (JStr ''Unknown Candidate'')) pool)"
proof -
  from assms obtain job_des_text results where
    m: "map_err (stage1_entry repr bi_encoder_model job_des_text) pool = Inr results" and
    s: "ranking = sorted_reverse rank results"
    by (rule stage1_unfold)
  have "mset ranking = mset results"
    using s by (simp add: mset_sorted_reverse)
  then have "mset (map candidate_name ranking) = mset (map candidate_name results)"
    by (metis mset_map)
  then show ?thesis
    using map_err_names [OF m] by simp
qed

lemma nameless_count:
  "length (filter nameless pool) \<le>
   count_list (map (\<lambda>c. safe_get_nested c [''contact_info'', ''name''] (JStr ''Unknown Candidate'')) pool)
     (JStr ''Unknown Candidate'')"
  by (induction pool) (auto simp: nameless_default simp del: safe_get_nested.simps)

lemma py_hash_KStr: "py_hash v = Inr (KStr s) \<Longrightarrow> v = JStr s"
  by (cases v) (auto split: if_splits)

lemma record_for_unknown:
  assumes "record_for resumes (JStr ''Unknown Candidate'') = Some r"
  shows "r \<in> set resumes \<and> \<not> nameless r \<and>
         safe_get_nested r [''contact_info'', ''name''] JNull = JStr ''Unknown Candidate''"
proof -
  from assms obtain d where
    d: "candidate_data_by_name resumes = Inr d" and r: "d (KStr ''Unknown Candidate'') = Some r"
    by (auto simp: record_for_def resolve_def split: sum.splits)
  have "dict_of_resumes Map.empty resumes = Inr d"
    using d by (simp add: candidate_data_by_name_def)
  from dict_of_resumes_lookup [OF this r]
  have in_set: "r \<in> set resumes" and
    h: "py_hash (safe_get_nested r [''contact_info'', ''name''] JNull) = Inr (KStr ''Unknown Candidate'')"
    by simp_all
  have name: "safe_get_nested r [''contact_info'', ''name''] JNull = JStr ''Unknown Candidate''"
    using h by (rule py_hash_KStr)
  have "\<not> nameless r"
  proof
    assume "nameless r"
    then have "safe_get_nested r [''contact_info'', ''name''] JNull = JNull"
      by (rule nameless_default)
    with name show False by simp
  qed
  with in_set name show ?thesis by simp
qed

lemma stage2_entry_of_name:
  assumes "score_and_rank repr client bi_encoder_ranking resumes job cross_encoder_model top_n
             llm_weight cross_encoder_weight = Inr final"
    and "x \<in> set final" and "y \<in> set final" and "candidate_name x = candidate_name y"
  shows "x = y"
proof -
  from assms(1) obtain rest where
    f: "final = sorted_reverse combined_score
       (map (combine (fst rest) (snd rest) llm_weight cross_encoder_weight)
          (map candidate_name (py_slice_to bi_encoder_ranking top_n)))"
    by (rule stage2_unfold)
  have "z = combine (fst rest) (snd rest) llm_weight cross_encoder_weight (candidate_name z)"
    if "z \<in> set final" for z
    using that f by auto
  from this [OF assms(2)] this [OF assms(3)] assms(4) show ?thesis
    by simp
qed

text \<open>
  Claim C10. For a candidate whose \<^verbatim>\<open>contact_info.name\<close> is missing, null or empty, the
  loop body of Stage 1 fails only where serialization or the embedder fails, and records
  the identity \<^verbatim>\<open>Unknown Candidate\<close>. The Stage 1 output therefore carries this identity
  at least once per such candidate of the pool. In Stage 2 the identity stands for at most
  one record, which is a resume literally named \<^verbatim>\<open>Unknown Candidate\<close> and never one of
  the nameless ones, and all output entries with the same identity are equal.
\<close>

theorem nameless_candidates_share_identity:
  "(nameless c \<longrightarrow>
      stage1_entry repr bi_encoder_model job_des_text c =
        on_ok (format_resume repr c)
          (\<lambda>resume_text. on_ok (bi_encoder_model job_des_text resume_text)
             (\<lambda>score. Inr \<lparr>candidate_name = JStr ''Unknown Candidate'', rank = score\<rparr>))) \<and>
   (bi_encoder_resume_filtering repr job pool bi_encoder_model = Inr ranking \<longrightarrow>
      length (filter nameless pool) \<le>
        count_list (map candidate_name ranking) (JStr ''Unknown Candidate'')) \<and>
   (record_for resumes (JStr ''Unknown Candidate'') = Some r \<longrightarrow>
      r \<in> set resumes \<and> \<not> nameless r \<and>
      safe_get_nested r [''contact_info'', ''name''] JNull = JStr ''Unknown Candidate'') \<and>
   (score_and_rank repr client bi_encoder_ranking resumes job cross_encoder_model top_n
        llm_weight cross_encoder_weight = Inr final \<longrightarrow>
      (\<forall>x \<in> set final. \<forall>y \<in> set final.
         candidate_name x = JStr ''Unknown Candidate'' \<and>
         candidate_name y = JStr ''Unknown Candidate'' \<longrightarrow> x = y) \<and>
      (\<forall>x \<in> set final.
         candidate_name x = JStr ''Unknown Candidate'' \<and>
         record_for resumes (JStr ''Unknown Candidate'') = None \<longrightarrow>
         x = \<lparr>candidate_name = JStr ''Unknown Candidate'', llm_score = 0, cross_encoder_score = 0,
               combined_score = 0, llm_analysis = None\<rparr>))"
proof (intro conjI impI ballI)
  assume "nameless c"
  then show "stage1_entry repr bi_encoder_model job_des_text c =
        on_ok (format_resume repr c)
          (\<lambda>resume_text. on_ok (bi_encoder_model job_des_text resume_text)
             (\<lambda>score. Inr \<lparr>candidate_name = JStr ''Unknown Candidate'', rank = score\<rparr>))"
    by (simp add: stage1_entry_def nameless_default del: safe_get_nested.simps)
next
  assume run: "bi_encoder_resume_filtering repr job pool bi_encoder_model = Inr ranking"
  have "count_list (map candidate_name ranking) (JStr ''Unknown Candidate'') =
        count_list (map (\<lambda>c. safe_get_nested c [''contact_info'', ''name''] (JStr ''Unknown Candidate'')) pool)
          (JStr ''Unknown Candidate'')"
    using stage1_names_mset [OF run] by (metis count_mset)
  then show "length (filter nameless pool) \<le>
        count_list (map candidate_name ranking) (JStr ''Unknown Candidate'')"
    using nameless_count [of pool] by simp
next
  assume r: "record_for resumes (JStr ''Unknown Candidate'') = Some r"
  from record_for_unknown [OF r]
  show "r \<in> set resumes" "\<not> nameless r"
    "safe_get_nested r [''contact_info'', ''name''] JNull = JStr ''Unknown Candidate''"
    by simp_all
next
  fix x y
  assume run: "score_and_rank repr client bi_encoder_ranking resumes job cross_encoder_model top_n
        llm_weight cross_encoder_weight = Inr final"
    and x: "x \<in> set final" and y: "y \<in> set final"
    and n: "candidate_name x = JStr ''Unknown Candidate'' \<and>
         candidate_name y = JStr ''Unknown Candidate''"
  from n have "candidate_name x = candidate_name y" by simp
  then show "x = y"
    by (rule stage2_entry_of_name [OF run x y])
next
  fix x
  assume run: "score_and_rank repr client bi_encoder_ranking resumes job cross_encoder_model top_n
        llm_weight cross_encoder_weight = Inr final"
    and x: "x \<in> set final"
    and n: "candidate_name x = JStr ''Unknown Candidate'' \<and>
         record_for resumes (JStr ''Unknown Candidate'') = None"
  from stage2_entry_cases [OF run x] n
  show "x = \<lparr>candidate_name = JStr ''Unknown Candidate'', llm_score = 0, cross_encoder_score = 0,
               combined_score = 0, llm_analysis = None\<rparr>"
    by auto
qed

lemma stage1_failed_extraction:
  "bi_encoder_resume_filtering example_repr example_job failed_extraction_pool example_bi_encoder =
     Inr unknown_ranking"
  by (simp add: run_simps example_simps failed_extraction_pool_def unknown_ranking_def)

lemma stage2_failed_extraction:
  "score_and_rank example_repr example_client unknown_ranking failed_extraction_pool example_job
     example_cross_encoder 3 (3/4) (1/4) = Inr unknown_final"
  by (simp add: run_simps example_simps failed_extraction_pool_def unknown_ranking_def
      unknown_final_def)

text \<open>
  Two failed extractions run through both stages: both get the identity
  \<^verbatim>\<open>Unknown Candidate\<close> in Stage 1, and Stage 2 finds no record for it.
\<close>

theorem nameless_candidates_share_identity_witness:
  "nameless (JDict []) \<and>
   stage1_entry example_repr example_bi_encoder [] (JDict []) =
     Inr \<lparr>candidate_name = JStr ''Unknown Candidate'', rank = 1 / 2 ^ 97\<rparr> \<and>
   bi_encoder_resume_filtering example_repr example_job failed_extraction_pool example_bi_encoder =
     Inr unknown_ranking \<and>
   length (filter nameless failed_extraction_pool) = 2 \<and>
   2 \<le> count_list (map candidate_name unknown_ranking) (JStr ''Unknown Candidate'') \<and>
   record_for [JDict [], named_resume ''Unknown Candidate'' ''x''] (JStr ''Unknown Candidate'') =
     Some (named_resume ''Unknown Candidate'' ''x'') \<and>
   \<not> nameless (named_resume ''Unknown Candidate'' ''x'') \<and>
   score_and_rank example_repr example_client unknown_ranking failed_extraction_pool example_job
     example_cross_encoder 3 (3/4) (1/4) = Inr unknown_final \<and>
   record_for failed_extraction_pool (JStr ''Unknown Candidate'') = None \<and>
   unknown_final ! 0 = unknown_final ! 1"
proof -
  have n: "nameless (JDict [])"
    by (simp add: nameless_def)
  have two: "length (filter nameless failed_extraction_pool) = 2"
    by (simp add: failed_extraction_pool_def nameless_def)
  have rec: "record_for [JDict [], named_resume ''Unknown Candidate'' ''x''] (JStr ''Unknown Candidate'') =
     Some (named_resume ''Unknown Candidate'' ''x'')"
    by (simp add: record_for_def candidate_data_by_name_def resolve_def named_resume_def
        on_ok_def py_or_def)
  have none: "record_for failed_extraction_pool (JStr ''Unknown Candidate'') = None"
    by (simp add: record_for_def candidate_data_by_name_def resolve_def failed_extraction_pool_def
        on_ok_def py_or_def)
  have mem: "unknown_final ! 0 \<in> set unknown_final" "unknown_final ! 1 \<in> set unknown_final"
    "candidate_name (unknown_final ! 0) = JStr ''Unknown Candidate''"
    "candidate_name (unknown_final ! 1) = JStr ''Unknown Candidate''"
    by (simp_all add: unknown_final_def)
  note t1 = nameless_candidates_share_identity
    [where c = "JDict []" and repr = example_repr and bi_encoder_model = example_bi_encoder
       and job_des_text = "[]" and job = example_job and pool = failed_extraction_pool
       and ranking = unknown_ranking
       and resumes = "[JDict [], named_resume ''Unknown Candidate'' ''x'']"
       and r = "named_resume ''Unknown Candidate'' ''x''"]
  note t2 = nameless_candidates_share_identity
    [where repr = example_repr and job = example_job and resumes = failed_extraction_pool
       and client = example_client and bi_encoder_ranking = unknown_ranking
       and cross_encoder_model = example_cross_encoder and top_n = 3
       and llm_weight = "3/4" and cross_encoder_weight = "1/4" and final = unknown_final]
  have "stage1_entry example_repr example_bi_encoder [] (JDict []) =
        on_ok (format_resume example_repr (JDict []))
          (\<lambda>resume_text. on_ok (example_bi_encoder [] resume_text)
             (\<lambda>score. Inr \<lparr>candidate_name = JStr ''Unknown Candidate'', rank = score\<rparr>))"
    by (rule conjunct1 [OF t1, THEN mp, OF n])
  also have "\<dots> = Inr \<lparr>candidate_name = JStr ''Unknown Candidate'', rank = 1 / 2 ^ 97\<rparr>"
    by (simp add: run_simps example_simps)
  finally have e: "stage1_entry example_repr example_bi_encoder [] (JDict []) =
     Inr \<lparr>candidate_name = JStr ''Unknown Candidate'', rank = 1 / 2 ^ 97\<rparr>" .
  have "length (filter nameless failed_extraction_pool) \<le>
      count_list (map candidate_name unknown_ranking) (JStr ''Unknown Candidate'')"
    using t1 stage1_failed_extraction by blast
  then have cnt: "2 \<le> count_list (map candidate_name unknown_ranking) (JStr ''Unknown Candidate'')"
    using two by simp
  have nn: "\<not> nameless (named_resume ''Unknown Candidate'' ''x'')"
    using t1 rec by blast
  have eq: "unknown_final ! 0 = unknown_final ! 1"
    using t2 stage2_failed_extraction mem by blast
  from n e stage1_failed_extraction two cnt rec nn stage2_failed_extraction none eq
  show ?thesis by blast
qed

section \<open>The serializer\<close>

lemma safe_join_list [simp]:
  "safe_join repr (JList xs) JNull = Inr (join_space (map (py_str repr) xs))"
  by (cases xs) (simp_all add: safe_join_def py_or_def)

lemma field_ok_list:
  assumes "field_ok is_list v key"
  shows "\<exists>xs. safe_get_nested v [key] (JList []) = JList xs"
proof (cases v)
  case (JDict kvs)
  show ?thesis
  proof (cases "map_of kvs key")
    case None
    then show ?thesis using JDict by simp
  next
    case (Some w)
    then have "\<not> truthy w \<or> is_list w"
      using assms JDict by (simp add: field_ok_def)
    then show ?thesis
      using JDict Some by (cases w) (auto simp: py_or_def)
  qed
qed simp_all

lemma map_err_as_str: "list_all is_str xs \<Longrightarrow> \<exists>ss. map_err as_str xs = Inr ss"
proof (induction xs)
  case Nil
  then show ?case by simp
next
  case (Cons x xs)
  then show ?case by (cases x) auto
qed

lemma py_join_str_items: "str_items v \<Longrightarrow> \<exists>s. py_join v = Inr s"
proof (cases v)
  case (JList xs)
  assume "str_items v"
  then have "list_all is_str xs" using JList by simp
  from map_err_as_str [OF this] show ?thesis
    using JList by (auto simp: py_join_def)
qed simp_all

lemma job_role_text_ok:
  assumes "job_entry_ok job"
  shows "\<exists>t. job_role_text repr job = Inr t"
proof -
  have "\<exists>s. py_join (safe_get_nested job [''achievements''] (JList [])) = Inr s"
  proof (cases job)
    case (JDict kvs)
    show ?thesis
    proof (cases "map_of kvs ''achievements''")
      case None
      then show ?thesis using JDict by (simp add: py_join_def)
    next
      case (Some w)
      then have w: "\<not> truthy w \<or> str_items w"
        using assms JDict by (simp add: job_entry_ok_def field_ok_def)
      show ?thesis
      proof (cases "truthy w")
        case True
        then have "str_items w" using w by simp
        from py_join_str_items [OF this] show ?thesis
          using JDict Some True by (simp add: py_or_def)
      next
        case False
        then show ?thesis
          using JDict Some by (simp add: py_or_def py_join_def)
      qed
    qed
  qed (simp_all add: py_join_def)
  then show ?thesis
    by (auto simp: job_role_text_def Let_def simp del: safe_get_nested.simps)
qed

lemma work_experience_ok:
  assumes "field_ok job_entries c ''work_experience''"
  shows "\<exists>jobs roles.
           py_iter (safe_get_nested c [''work_experience''] (JList [])) = Inr jobs \<and>
           map_err (job_role_text repr) jobs = Inr roles"
proof -
  have "\<exists>jobs. safe_get_nested c [''work_experience''] (JList []) = JList jobs \<and>
          list_all job_entry_ok jobs"
  proof (cases c)
    case (JDict kvs)
    show ?thesis
    proof (cases "map_of kvs ''work_experience''")
      case None
      then show ?thesis using JDict by simp
    next
      case (Some w)
      then have "\<not> truthy w \<or> job_entries w"
        using assms JDict by (simp add: field_ok_def)
      then show ?thesis
        using JDict Some by (cases w) (auto simp: py_or_def)
    qed
  qed simp_all
  then obtain jobs where
    j: "safe_get_nested c [''work_experience''] (JList []) = JList jobs" and
    ok: "list_all job_entry_ok jobs"
    by blast
  have "\<forall>job \<in> set jobs. \<exists>t. job_role_text repr job = Inr t"
    using ok job_role_text_ok by (auto simp: list_all_iff)
  from map_err_total [OF this] j show ?thesis
    by simp
qed

lemma format_resume_ok:
  assumes "resume_ok c"
  shows "\<exists>t. format_resume repr c = Inr t"
proof -
  let ?skills = "safe_get_nested c [''skills_section''] (JDict [])"
  from assms obtain xs ys zs where
    s: "safe_get_nested ?skills [''programming_languages''] (JList []) = JList xs"
       "safe_get_nested ?skills [''frameworks_and_libraries''] (JList []) = JList ys"
       "safe_get_nested ?skills [''platforms_and_tools''] (JList []) = JList zs"
    unfolding resume_ok_def Let_def using field_ok_list by metis
  from assms have "field_ok job_entries c ''work_experience''"
    by (simp add: resume_ok_def Let_def)
  from work_experience_ok [OF this, of repr] obtain jobs roles where
    w: "py_iter (safe_get_nested c [''work_experience''] (JList [])) = Inr jobs"
       "map_err (job_role_text repr) jobs = Inr roles"
    by blast
  from assms obtain ps cs where
    p: "safe_get_nested c [''projects''] (JList []) = JList ps"
       "safe_get_nested c [''certifications''] (JList []) = JList cs"
    unfolding resume_ok_def Let_def using field_ok_list by metis
  show ?thesis
    unfolding format_resume_def Let_def
    by (simp add: s w p del: safe_get_nested.simps)
qed

lemma format_job_description_ok:
  assumes "job_ok j"
  shows "\<exists>t. format_job_description repr j = Inr t"
proof -
  let ?role = "safe_get_nested j [''role_description''] (JDict [])"
  let ?hard = "safe_get_nested j [''hard_requirements''] (JDict [])"
  let ?pref = "safe_get_nested j [''preferred_qualifications''] (JDict [])"
  from assms obtain a b where
    r: "safe_get_nested ?role [''key_responsibilities''] (JList []) = JList a"
       "safe_get_nested ?role [''domain_knowledge''] (JList []) = JList b"
    unfolding job_ok_def Let_def using field_ok_list by metis
  from assms obtain d e f where
    h: "safe_get_nested ?hard [''must_have_skills''] (JList []) = JList d"
       "safe_get_nested ?hard [''must_have_tools''] (JList []) = JList e"
       "safe_get_nested ?hard [''required_experience_type''] (JList []) = JList f"
    unfolding job_ok_def Let_def using field_ok_list by metis
  from assms obtain g i where
    q: "safe_get_nested ?pref [''preferred_skills''] (JList []) = JList g"
       "safe_get_nested ?pref [''preferred_tools''] (JList []) = JList i"
    unfolding job_ok_def Let_def using field_ok_list by metis
  show ?thesis
    unfolding format_job_description_def Let_def
    by (simp add: r h q del: safe_get_nested.simps)
qed

lemma not_dict_resume_ok: "\<forall>kvs. v \<noteq> JDict kvs \<Longrightarrow> resume_ok v"
  by (cases v) (simp_all add: resume_ok_def field_ok_def)

lemma not_dict_format_resume:
  "\<forall>kvs. v \<noteq> JDict kvs \<Longrightarrow> format_resume repr v = Inr (resume_signal_text [] [] [] [] [])"
  by (cases v) (simp_all add: format_resume_def py_join_def)

lemma missing_or_null_default:
  "map_of kvs key = None \<or> map_of kvs key = Some JNull \<Longrightarrow>
   safe_get_nested (JDict kvs) (key # keys) dflt = dflt"
  by (cases keys) (auto simp: py_or_def)

text \<open>
  Claim C8, amended. The serializer returns a text for every record whose list fields are
  missing, null or lists (the achievements of a job: lists of strings), at any depth: a
  missing or null field resolves to the default, and a resume with empty skill lists and
  no work experience gives the template with empty placeholders. It raises only for a
  record outside this shape, that is when a list field holds a true value that is not a
  list or an achievement is not a string; a value that is not a record where a record is
  expected does not make it raise.
\<close>

theorem serializer_permissive:
  "(resume_ok c \<longrightarrow> (\<exists>t. format_resume repr c = Inr t)) \<and>
   (job_ok j \<longrightarrow> (\<exists>t. format_job_description repr j = Inr t)) \<and>
   (format_resume repr c = Inl err \<longrightarrow> \<not> resume_ok c) \<and>
   (format_job_description repr j = Inl err \<longrightarrow> \<not> job_ok j) \<and>
   (map_of kvs key = None \<or> map_of kvs key = Some JNull \<longrightarrow>
      safe_get_nested (JDict kvs) (key # keys) dflt = dflt) \<and>
   ((\<forall>kvs. v \<noteq> JDict kvs) \<longrightarrow>
      format_resume repr v = Inr (resume_signal_text [] [] [] [] [])) \<and>
   format_resume repr
     (JDict [(''contact_info'', contact),
             (''professional_summary'', JStr summary),
             (''skills_section'',
                JDict [(''programming_languages'', JList []),
                       (''frameworks_and_libraries'', JList []),
                       (''platforms_and_tools'', JList [])]),
             (''work_experience'', JList []),
             (''projects'', JList []),
             (''education'', education),
             (''certifications'', JList [])]) =
     Inr (resume_signal_text summary [] [] [] [])"
proof (intro conjI impI)
  assume "resume_ok c"
  then show "\<exists>t. format_resume repr c = Inr t" by (rule format_resume_ok)
next
  assume "job_ok j"
  then show "\<exists>t. format_job_description repr j = Inr t" by (rule format_job_description_ok)
next
  assume e: "format_resume repr c = Inl err"
  show "\<not> resume_ok c"
  proof
    assume "resume_ok c"
    from format_resume_ok [OF this, of repr] e show False by auto
  qed
next
  assume e: "format_job_description repr j = Inl err"
  show "\<not> job_ok j"
  proof
    assume "job_ok j"
    from format_job_description_ok [OF this, of repr] e show False by auto
  qed
next
  assume "map_of kvs key = None \<or> map_of kvs key = Some JNull"
  then show "safe_get_nested (JDict kvs) (key # keys) dflt = dflt"
    by (rule missing_or_null_default)
next
  assume "\<forall>kvs. v \<noteq> JDict kvs"
  then show "format_resume repr v = Inr (resume_signal_text [] [] [] [] [])"
    by (rule not_dict_format_resume)
next
  show "format_resume repr
     (JDict [(''contact_info'', contact),
             (''professional_summary'', JStr summary),
             (''skills_section'',
                JDict [(''programming_languages'', JList []),
                       (''frameworks_and_libraries'', JList []),
                       (''platforms_and_tools'', JList [])]),
             (''work_experience'', JList []),
             (''projects'', JList []),
             (''education'', education),
             (''certifications'', JList [])]) =
     Inr (resume_signal_text summary [] [] [] [])"
    by (cases "summary = []") (simp_all add: format_resume_def py_or_def)
qed

text \<open>The resume with empty skill lists and no work experience, and the example job.\<close>

theorem serializer_permissive_witness:
  "resume_ok empty_skills_resume \<and> job_ok example_job \<and>
   (\<exists>t. format_resume example_repr empty_skills_resume = Inr t) \<and>
   (\<exists>t. format_job_description example_repr example_job = Inr t) \<and>
   map_of [(''name'', JStr ''Dee''), (''email'', JNull)] ''email'' = Some JNull \<and>
   safe_get_nested empty_skills_resume [''contact_info'', ''email''] (JStr []) = JStr [] \<and>
   format_resume example_repr JNull = Inr (resume_signal_text [] [] [] [] []) \<and>
   format_resume example_repr empty_skills_resume =
     Inr (resume_signal_text ''Analyst'' [] [] [] [])"
proof -
  have r: "resume_ok empty_skills_resume"
    by (simp add: resume_ok_def field_ok_def empty_skills_resume_def py_or_def)
  have j: "job_ok example_job"
    by (simp add: job_ok_def field_ok_def example_job_def py_or_def)
  have m: "map_of [(''name'', JStr ''Dee''), (''email'', JNull)] ''email'' = Some JNull"
    by simp
  have n: "\<forall>kvs. JNull \<noteq> JDict kvs"
    by simp
  note t = serializer_permissive
    [where c = empty_skills_resume and j = example_job and repr = example_repr
       and kvs = "[(''name'', JStr ''Dee''), (''email'', JNull)]" and key = "''email''"
       and keys = "[]" and dflt = "JStr []" and v = JNull
       and contact = "JDict [(''name'', JStr ''Dee''), (''email'', JNull)]"
       and summary = "''Analyst''" and education = "JList []"]
  from t r have a: "\<exists>t. format_resume example_repr empty_skills_resume = Inr t"
    by blast
  from t j have b: "\<exists>t. format_job_description example_repr example_job = Inr t"
    by blast
  from t m have "safe_get_nested (JDict [(''name'', JStr ''Dee''), (''email'', JNull)])
      [''email''] (JStr []) = JStr []"
    by blast
  then have d: "safe_get_nested empty_skills_resume [''contact_info'', ''email''] (JStr []) = JStr []"
    by (simp add: empty_skills_resume_def)
  from t n have e: "format_resume example_repr JNull = Inr (resume_signal_text [] [] [] [] [])"
    by blast
  from t have f: "format_resume example_repr empty_skills_resume =
     Inr (resume_signal_text ''Analyst'' [] [] [] [])"
    unfolding empty_skills_resume_def by blast
  from r j a b m d e f show ?thesis by blast
qed

text \<open>
  Claim C8 as stated fails in both directions: a resume made of records throughout whose
  programming languages are a string makes the serializer raise, and a string in place of
  the resume does not.
\<close>

theorem serializer_raises_counterexample:
  "format_resume example_repr string_skills_resume = Inl TypeError \<and>
   format_resume example_repr (JStr ''resume'') = Inr (resume_signal_text [] [] [] [] [])"
  by (simp add: format_resume_def string_skills_resume_def py_or_def py_join_def)

end
